theory Spec2Isabelle
  imports Main "HOL-Library.Word" "HOL-Library.Monad_Syntax"
begin

unbundle bit_operations_syntax

section \<open>The CH340 serial driver (ch340.c): data model\<close>

text \<open>
  C integer types are fixed-width words: \<open>u8\<close>, \<open>u16\<close> and \<open>unsigned int\<close>
  wrap around, a \<open>short\<close> is a 16-bit word read through \<open>scast\<close> where the
  code converts it to a wider type. Return codes are \<open>int\<close>: 0 or a byte
  count on success, a negated errno on failure.
\<close>

type_synonym u8 = "8 word"
type_synonym u16 = "16 word"
type_synonym u32 = "32 word"
type_synonym short = "16 word"

datatype errno = EIO | ENOMEM | ENODEV | EINVAL | EPIPE | EPROTO | ETIMEDOUT

fun errno_val :: "errno \<Rightarrow> int" where
  "errno_val EIO = 5"
| "errno_val ENOMEM = 12"
| "errno_val ENODEV = 19"
| "errno_val EINVAL = 22"
| "errno_val EPIPE = 32"
| "errno_val EPROTO = 71"
| "errno_val ETIMEDOUT = 110"

definition DEFAULT_BAUD_RATE :: u32 where "DEFAULT_BAUD_RATE = 9600"

definition CH340_BIT_RTS :: u8 where "CH340_BIT_RTS = 0x40"
definition CH340_BIT_DTR :: u8 where "CH340_BIT_DTR = 0x20"

definition CH340_MULT_STAT :: u8 where "CH340_MULT_STAT = 0x04"

definition CH340_BIT_CTS :: u8 where "CH340_BIT_CTS = 0x01"
definition CH340_BIT_DSR :: u8 where "CH340_BIT_DSR = 0x02"
definition CH340_BIT_RI :: u8 where "CH340_BIT_RI = 0x04"
definition CH340_BIT_DCD :: u8 where "CH340_BIT_DCD = 0x08"
definition CH340_BITS_MODEM_STAT :: u8 where "CH340_BITS_MODEM_STAT = 0x0f"

definition CH340_BAUDBASE_FACTOR :: u32 where "CH340_BAUDBASE_FACTOR = 6000000"
definition CH340_BAUDBASE_DIVMAX :: short where "CH340_BAUDBASE_DIVMAX = 3"

definition CH340_REQ_READ_VERSION :: u8 where "CH340_REQ_READ_VERSION = 0x5F"
definition CH340_REQ_WRITE_REG :: u8 where "CH340_REQ_WRITE_REG = 0x9A"
definition CH340_REQ_READ_REG :: u8 where "CH340_REQ_READ_REG = 0x95"
definition CH340_REQ_SERIAL_INIT :: u8 where "CH340_REQ_SERIAL_INIT = 0xA1"
definition CH340_REQ_MODEM_CTRL :: u8 where "CH340_REQ_MODEM_CTRL = 0xA4"

definition CH340_REG_BREAK :: u8 where "CH340_REG_BREAK = 0x05"
definition CH340_REG_LCR :: u8 where "CH340_REG_LCR = 0x18"
definition CH340_NBREAK_BITS :: u8 where "CH340_NBREAK_BITS = 0x01"

definition CH340_LCR_ENABLE_RX :: u8 where "CH340_LCR_ENABLE_RX = 0x80"
definition CH340_LCR_ENABLE_TX :: u8 where "CH340_LCR_ENABLE_TX = 0x40"
definition CH340_LCR_MARK_SPACE :: u8 where "CH340_LCR_MARK_SPACE = 0x20"
definition CH340_LCR_PAR_EVEN :: u8 where "CH340_LCR_PAR_EVEN = 0x10"
definition CH340_LCR_ENABLE_PAR :: u8 where "CH340_LCR_ENABLE_PAR = 0x08"
definition CH340_LCR_STOP_BITS_2 :: u8 where "CH340_LCR_STOP_BITS_2 = 0x04"
definition CH340_LCR_CS8 :: u8 where "CH340_LCR_CS8 = 0x03"
definition CH340_LCR_CS7 :: u8 where "CH340_LCR_CS7 = 0x02"
definition CH340_LCR_CS6 :: u8 where "CH340_LCR_CS6 = 0x01"
definition CH340_LCR_CS5 :: u8 where "CH340_LCR_CS5 = 0x00"

text \<open>\<open>struct ch340_private\<close>; the spinlock has no content in a sequential model.\<close>

record ch340_private =
  baud_rate :: u32
  mcr :: u8
  msr :: u8
  lcr :: u8

section \<open>Baud rate synthesis (\<open>ch340_set_baudrate_lcr\<close>, lines 160 to 210)\<close>

text \<open>
  Modelled from the spec: the kernel macro \<open>DIV_ROUND_CLOSEST\<close> is not part of
  the source file; the spec reads it as \<open>round(x / divisor)\<close>. With an
  \<open>unsigned int\<close> divisor the macro computes \<open>(x + d / 2) / d\<close> in 32-bit
  unsigned arithmetic. A zero divisor is a division by zero, which C leaves
  undefined and the kernel traps on: the model returns \<open>None\<close> there.
\<close>

definition DIV_ROUND_CLOSEST :: "u32 \<Rightarrow> u32 \<Rightarrow> u32 option" where
  "DIV_ROUND_CLOSEST x d = (if d = 0 then None else Some ((x + d div 2) div d))"

text \<open>
  The loop \<open>while ((factor > 0xff) && divisor) { factor >>= 3; divisor--; div <<= 3; }\<close>
  returning the three variables.
\<close>

function baud_loop :: "u32 \<Rightarrow> short \<Rightarrow> short \<Rightarrow> u32 \<times> short \<times> short" where
  "baud_loop factor divisor dv =
     (if factor > 0xff \<and> divisor \<noteq> 0
      then baud_loop (drop_bit 3 factor) (divisor - 1) (push_bit 3 dv)
      else (factor, divisor, dv))"
  by pat_completeness auto
termination
  by (relation "measure (\<lambda>(factor, divisor, dv). unat divisor)")
     (auto simp: unat_minus_one unat_gt_0)

text \<open>\<open>diff = (res > baud) ? (res - baud) : (baud - res)\<close>\<close>

definition abs_diff :: "u32 \<Rightarrow> u32 \<Rightarrow> u32" where
  "abs_diff res baud = (if res > baud then res - baud else baud - res)"

text \<open>
  The search itself: the values of \<open>best_factor\<close>, \<open>best_divisor\<close> and
  \<open>x2\<close> when control reaches line 213, for a nonzero \<open>priv->baud_rate\<close>.
  \<open>factor * div\<close> multiplies an \<open>unsigned int\<close> by a \<open>short\<close>, so the short
  is converted (\<open>scast\<close>) and the product wraps at 32 bits.
\<close>

definition ch340_baud_search :: "u32 \<Rightarrow> (u32 \<times> u32 \<times> bool) option" where
  "ch340_baud_search baud =
     do {
       factor0 \<leftarrow> DIV_ROUND_CLOSEST CH340_BAUDBASE_FACTOR baud;
       let (factor, divisor, dv) = baud_loop factor0 CH340_BAUDBASE_DIVMAX 1;
       res \<leftarrow> DIV_ROUND_CLOSEST CH340_BAUDBASE_FACTOR (factor * scast dv);
       let diff = abs_diff res baud;
       let best_factor = factor;
       let best_divisor = (scast divisor :: u32);
       let best_diff = diff;
       factor0' \<leftarrow> DIV_ROUND_CLOSEST (CH340_BAUDBASE_FACTOR * 2) baud;
       let (factor', divisor', dv') = baud_loop factor0' CH340_BAUDBASE_DIVMAX 1;
       if factor' > 8 then
         do {
           res' \<leftarrow> DIV_ROUND_CLOSEST (CH340_BAUDBASE_FACTOR * 2) (factor' * scast dv');
           let diff' = abs_diff res' baud;
           if diff' < best_diff
           then Some (factor', scast divisor', True)
           else Some (best_factor, best_divisor, False)
         }
       else Some (best_factor, best_divisor, False)
     }"

section \<open>The environment: the chip behind the control pipe and the kernel services\<close>

datatype direction = DIR_OUT | DIR_IN

text \<open>The \<open>dev_err\<close> messages of the driver, with their arguments.\<close>

datatype message =
    Failed_to_send int
  | Short_control_message int nat
  | Failed_to_receive int
  | Failed_to_submit_urb int
  | Failed_to_read_status int
  | Break_read_error int
  | Break_write_error int
  | Resubmit_failed int

text \<open>Kernel services that can fail.\<close>

datatype ksvc = KMALLOC | USB_SUBMIT_URB | GENERIC_OPEN | GENERIC_RESUME

text \<open>
  Everything the driver does to the outside, in order: control transfers
  (direction, request, value, index, buffer size), error messages, calls of
  kernel services, and the events handed to the tty layer.
\<close>

datatype action =
    CTRL direction u8 u16 u16 nat
  | DEV_ERR message
  | KSVC ksvc
  | USB_KILL_URB
  | GENERIC_CLOSE
  | DCD_CHANGE bool
  | WAKE_UP

text \<open>What the next control transfer does: it is served, it fails, or it comes back short.\<close>

datatype ctrl_outcome = Served | Failed errno | Short nat

text \<open>
  \<open>struct usb_device\<close> as the driver sees it: the chip's register file and
  version byte, the outcomes of the coming control transfers and kernel
  service calls (an empty script means success), and the record of what has
  been done.
\<close>

record usb_device =
  regs :: "u8 \<Rightarrow> u8"
  chip_version :: u8
  ctrl_script :: "ctrl_outcome list"
  ksvc_script :: "ksvc \<Rightarrow> errno option list"
  trace :: "action list"

definition lo8 :: "u16 \<Rightarrow> u8" where
  "lo8 v = ucast v"

definition hi8 :: "u16 \<Rightarrow> u8" where
  "hi8 v = ucast (drop_bit 8 v)"

text \<open>
  Modelled from the spec: the chip's side of the register protocol is not in
  the source. A register selector names two registers, low byte first; a
  read returns the pair (4.1, 4.6), a write stores the two bytes of the
  payload into them. The version request answers two bytes.
\<close>

definition chip_write :: "(u8 \<Rightarrow> u8) \<Rightarrow> u16 \<Rightarrow> u16 \<Rightarrow> (u8 \<Rightarrow> u8)" where
  "chip_write rs sel v = (rs(lo8 sel := lo8 v))(hi8 sel := hi8 v)"

definition chip_reply :: "usb_device \<Rightarrow> u8 \<Rightarrow> u16 \<Rightarrow> u8 list" where
  "chip_reply d request sel =
     (if request = CH340_REQ_READ_REG then [regs d (lo8 sel), regs d (hi8 sel)]
      else [chip_version d, 0])"

definition next_outcome :: "usb_device \<Rightarrow> ctrl_outcome \<times> usb_device" where
  "next_outcome d =
     (case ctrl_script d of
        [] \<Rightarrow> (Served, d)
      | x # xs \<Rightarrow> (x, d\<lparr>ctrl_script := xs\<rparr>))"

text \<open>
  Modelled from the spec: the Control Channel (the kernel's
  \<open>usb_control_msg\<close>) is not in the source. It performs one vendor control
  transfer and returns the number of bytes transferred or a negated errno,
  together with the bytes received. The driver's OUT transfers carry the
  register selector in \<open>value\<close> and the payload in \<open>index\<close>. An OUT
  transfer has no data stage, so it cannot come back short: a \<open>Short\<close>
  outcome only cuts the reply of an IN transfer.
\<close>

definition usb_control_msg ::
  "usb_device \<Rightarrow> direction \<Rightarrow> u8 \<Rightarrow> u16 \<Rightarrow> u16 \<Rightarrow> nat \<Rightarrow> int \<times> u8 list \<times> usb_device" where
  "usb_control_msg d dir request val index sz =
     (let d1 = d\<lparr>trace := trace d @ [CTRL dir request val index sz]\<rparr>;
          (oc, d2) = next_outcome d1
      in case oc of
           Failed e \<Rightarrow> (- errno_val e, [], d2)
         | _ \<Rightarrow>
           (case dir of
              DIR_OUT \<Rightarrow>
                (0, [],
                 if request = CH340_REQ_WRITE_REG
                 then d2\<lparr>regs := chip_write (regs d2) val index\<rparr> else d2)
            | DIR_IN \<Rightarrow>
                (let full = take sz (chip_reply d2 request val);
                     buf = (case oc of Short k \<Rightarrow> take k full | _ \<Rightarrow> full)
                 in (int (length buf), buf, d2))))"

definition dev_err :: "message \<Rightarrow> usb_device \<Rightarrow> usb_device" where
  "dev_err m d = d\<lparr>trace := trace d @ [DEV_ERR m]\<rparr>"

definition log_action :: "action \<Rightarrow> usb_device \<Rightarrow> usb_device" where
  "log_action a d = d\<lparr>trace := trace d @ [a]\<rparr>"

definition ksvc_call :: "ksvc \<Rightarrow> usb_device \<Rightarrow> errno option \<times> usb_device" where
  "ksvc_call k d =
     (let d1 = d\<lparr>trace := trace d @ [KSVC k]\<rparr>
      in case ksvc_script d1 k of
           [] \<Rightarrow> (None, d1)
         | x # xs \<Rightarrow> (x, d1\<lparr>ksvc_script := (ksvc_script d1)(k := xs)\<rparr>))"

definition ksvc_ret :: "errno option \<Rightarrow> int" where
  "ksvc_ret e = (case e of None \<Rightarrow> 0 | Some x \<Rightarrow> - errno_val x)"

text \<open>\<open>kmalloc\<close>/\<open>kzalloc\<close>: True when the allocation succeeded.\<close>

definition kmalloc :: "usb_device \<Rightarrow> bool \<times> usb_device" where
  "kmalloc d = (let (e, d1) = ksvc_call KMALLOC d in (e = None, d1))"

definition usb_submit_urb :: "usb_device \<Rightarrow> int \<times> usb_device" where
  "usb_submit_urb d = (let (e, d1) = ksvc_call USB_SUBMIT_URB d in (ksvc_ret e, d1))"

definition usb_serial_generic_open :: "usb_device \<Rightarrow> int \<times> usb_device" where
  "usb_serial_generic_open d = (let (e, d1) = ksvc_call GENERIC_OPEN d in (ksvc_ret e, d1))"

definition usb_serial_generic_resume :: "usb_device \<Rightarrow> int \<times> usb_device" where
  "usb_serial_generic_resume d = (let (e, d1) = ksvc_call GENERIC_RESUME d in (ksvc_ret e, d1))"

section \<open>Control transfers\<close>

definition ch340_control_out :: "usb_device \<Rightarrow> u8 \<Rightarrow> u16 \<Rightarrow> u16 \<Rightarrow> int \<times> usb_device" where
  "ch340_control_out d request val index =
     (let (r, buf, d1) = usb_control_msg d DIR_OUT request val index 0
      in if r < 0 then (r, dev_err (Failed_to_send r) d1) else (r, d1))"

definition ch340_control_in ::
  "usb_device \<Rightarrow> u8 \<Rightarrow> u16 \<Rightarrow> u16 \<Rightarrow> nat \<Rightarrow> int \<times> u8 list \<times> usb_device" where
  "ch340_control_in d request val index bufsize =
     (let (r, buf, d1) = usb_control_msg d DIR_IN request val index bufsize
      in if r < int bufsize then
           (let (r2, d2) =
                  (if r \<ge> 0
                   then (- errno_val EIO, dev_err (Short_control_message r bufsize) d1)
                   else (r, d1))
            in (r2, buf, dev_err (Failed_to_receive r2) d2))
         else (0, buf, d1))"

section \<open>Programming the baud rate and the frame format\<close>

text \<open>
  \<open>ch340_set_baudrate_lcr\<close>. \<open>None\<close> is the division by zero inside the
  search. The \<open>short a\<close> is passed as the 16-bit \<open>index\<close>, so only its low 16
  bits count.
\<close>

definition ch340_set_baudrate_lcr ::
  "usb_device \<Rightarrow> ch340_private \<Rightarrow> u8 \<Rightarrow> (int \<times> usb_device) option" where
  "ch340_set_baudrate_lcr d priv lcr_byte =
     (if baud_rate priv = 0 then Some (- errno_val EINVAL, d)
      else
        do {
          (best_factor, best_divisor, x2) \<leftarrow> ch340_baud_search (baud_rate priv);
          let factor = 0x100 - best_factor;
          if factor > 0xfe then Some (- errno_val EINVAL, d)
          else
            (let a = (ucast (push_bit 8 factor OR best_divisor OR push_bit 2 (of_bool x2)) :: u16);
                 a = a OR 0x80;
                 (r, d1) = ch340_control_out d CH340_REQ_WRITE_REG 0x1312 a
             in if r \<noteq> 0 then Some (r, d1)
                else
                  (let (r, d2) = ch340_control_out d1 CH340_REQ_WRITE_REG 0x2518 (ucast lcr_byte)
                   in Some (r, d2)))
        })"

text \<open>\<open>~control\<close> is computed in \<open>int\<close> and cut to the 16-bit \<open>value\<close>.\<close>

definition ch340_set_handshake :: "usb_device \<Rightarrow> u8 \<Rightarrow> int \<times> usb_device" where
  "ch340_set_handshake d control =
     ch340_control_out d CH340_REQ_MODEM_CTRL (NOT (ucast control)) 0"

definition ch340_get_status ::
  "usb_device \<Rightarrow> ch340_private \<Rightarrow> int \<times> usb_device \<times> ch340_private" where
  "ch340_get_status d priv =
     (let (ok, d0) = kmalloc d
      in if \<not> ok then (- errno_val ENOMEM, d0, priv)
         else
           (let (r, buffer, d1) = ch340_control_in d0 CH340_REQ_READ_REG 0x0706 0 2
            in if r < 0 then (r, d1, priv)
               else (r, d1, priv\<lparr>msr := NOT (buffer ! 0) AND CH340_BITS_MODEM_STAT\<rparr>)))"

section \<open>Bring-up\<close>

definition ch340_configure ::
  "usb_device \<Rightarrow> ch340_private \<Rightarrow> (int \<times> usb_device) option" where
  "ch340_configure d priv =
     (let (ok, d0) = kmalloc d
      in if \<not> ok then Some (- errno_val ENOMEM, d0)
         else
           (let (r, buffer, d1) = ch340_control_in d0 CH340_REQ_READ_VERSION 0 0 2
            in if r < 0 then Some (r, d1)
               else
                 (let (r, d2) = ch340_control_out d1 CH340_REQ_SERIAL_INIT 0 0
                  in if r < 0 then Some (r, d2)
                     else
                       do {
                         (r, d3) \<leftarrow> ch340_set_baudrate_lcr d2 priv (lcr priv);
                         if r < 0 then Some (r, d3)
                         else Some (ch340_set_handshake d3 (mcr priv))
                       })))"

text \<open>
  \<open>ch340_port_probe\<close>: the private data starts zeroed (\<open>kzalloc\<close>); it is
  kept only when the bring-up succeeded.
\<close>

definition ch340_port_probe ::
  "usb_device \<Rightarrow> (int \<times> usb_device \<times> ch340_private option) option" where
  "ch340_port_probe d =
     (let (ok, d0) = kmalloc d
      in if \<not> ok then Some (- errno_val ENOMEM, d0, None)
         else
           (let priv = \<lparr>baud_rate = 0, mcr = 0, msr = 0, lcr = 0\<rparr>;
                priv = priv\<lparr>baud_rate := DEFAULT_BAUD_RATE\<rparr>;
                priv = priv\<lparr>lcr := CH340_LCR_ENABLE_RX OR CH340_LCR_ENABLE_TX OR CH340_LCR_CS8\<rparr>
            in do {
                 (r, d1) \<leftarrow> ch340_configure d0 priv;
                 if r < 0 then Some (r, d1, None)
                 else Some (0, d1, Some priv)
               }))"

section \<open>The tty layer and the port\<close>

text \<open>
  \<open>struct ktermios\<close>, reduced to the fields the driver and the helpers it
  calls read. The flag values are those of \<open>asm-generic/termbits.h\<close>.
\<close>

record ktermios =
  c_cflag :: u32
  c_ispeed :: u32
  c_ospeed :: u32

record tty_struct =
  termios :: ktermios

definition CBAUD :: u32 where "CBAUD = 0x100f"
definition B0 :: u32 where "B0 = 0"
definition CSIZE :: u32 where "CSIZE = 0x30"
definition CS5 :: u32 where "CS5 = 0x00"
definition CS6 :: u32 where "CS6 = 0x10"
definition CS7 :: u32 where "CS7 = 0x20"
definition CS8 :: u32 where "CS8 = 0x30"
definition CSTOPB :: u32 where "CSTOPB = 0x40"
definition CREAD :: u32 where "CREAD = 0x80"
definition PARENB :: u32 where "PARENB = 0x100"
definition PARODD :: u32 where "PARODD = 0x200"
definition HUPCL :: u32 where "HUPCL = 0x400"
definition CLOCAL :: u32 where "CLOCAL = 0x800"
definition CMSPAR :: u32 where "CMSPAR = 0x40000000"

definition TIOCM_DTR :: u32 where "TIOCM_DTR = 0x002"
definition TIOCM_RTS :: u32 where "TIOCM_RTS = 0x004"

text \<open>
  Modelled from the spec: the kernel's termios helpers are not in the source.
  \<open>tty_termios_hw_change\<close> is the "hardware-relevant change" test, and the
  baud rate of a termios is the speed the tty core keeps in \<open>c_ospeed\<close>.
  \<open>tty_termios_copy_hw\<close> copies the hardware part of the old settings back.
\<close>

definition tty_termios_hw_change :: "ktermios \<Rightarrow> ktermios \<Rightarrow> bool" where
  "tty_termios_hw_change a b =
     (c_ispeed a \<noteq> c_ispeed b \<or> c_ospeed a \<noteq> c_ospeed b \<or>
      (c_cflag a XOR c_cflag b) AND NOT (HUPCL OR CREAD OR CLOCAL) \<noteq> 0)"

definition tty_termios_baud_rate :: "ktermios \<Rightarrow> u32" where
  "tty_termios_baud_rate t = c_ospeed t"

definition tty_get_baud_rate :: "tty_struct \<Rightarrow> u32" where
  "tty_get_baud_rate tty = tty_termios_baud_rate (termios tty)"

definition tty_termios_copy_hw :: "ktermios \<Rightarrow> ktermios \<Rightarrow> ktermios" where
  "tty_termios_copy_hw new old =
     new\<lparr>c_cflag := (c_cflag new AND (HUPCL OR CREAD OR CLOCAL)) OR
                     (c_cflag old AND NOT (HUPCL OR CREAD OR CLOCAL)),
         c_ispeed := c_ispeed old,
         c_ospeed := c_ospeed old\<rparr>"

definition C_CSIZE :: "tty_struct \<Rightarrow> u32" where
  "C_CSIZE tty = c_cflag (termios tty) AND CSIZE"

definition C_PARENB :: "tty_struct \<Rightarrow> u32" where
  "C_PARENB tty = c_cflag (termios tty) AND PARENB"

definition C_PARODD :: "tty_struct \<Rightarrow> u32" where
  "C_PARODD tty = c_cflag (termios tty) AND PARODD"

definition C_CMSPAR :: "tty_struct \<Rightarrow> u32" where
  "C_CMSPAR tty = c_cflag (termios tty) AND CMSPAR"

definition C_CSTOPB :: "tty_struct \<Rightarrow> u32" where
  "C_CSTOPB tty = c_cflag (termios tty) AND CSTOPB"

definition C_BAUD :: "tty_struct \<Rightarrow> u32" where
  "C_BAUD tty = c_cflag (termios tty) AND CBAUD"

text \<open>The transition counters of \<open>struct async_icount\<close> the driver touches.\<close>

record async_icount =
  cts :: u32
  dsr :: u32
  rng :: u32
  dcd :: u32

text \<open>
  \<open>struct usb_serial_port\<close>: the private data, the counters, the tty that
  \<open>tty_port_tty_get\<close> returns (if any) and \<open>tty_port_initialized\<close>.
  The driver has one port per device, so \<open>struct usb_serial\<close> is the device
  and that port.
\<close>

record usb_serial_port =
  port_data :: ch340_private
  icount :: async_icount
  port_tty :: "tty_struct option"
  port_initialized :: bool

record usb_serial =
  dev :: usb_device
  port :: usb_serial_port

definition priv_of :: "usb_serial \<Rightarrow> ch340_private" where
  "priv_of s = port_data (port s)"

definition set_priv :: "ch340_private \<Rightarrow> usb_serial \<Rightarrow> usb_serial" where
  "set_priv pr s = s\<lparr>port := (port s)\<lparr>port_data := pr\<rparr>\<rparr>"

definition ch340_carrier_raised :: "usb_serial \<Rightarrow> int" where
  "ch340_carrier_raised s = (if msr (priv_of s) AND CH340_BIT_DCD \<noteq> 0 then 1 else 0)"

definition ch340_dtr_rts :: "usb_serial \<Rightarrow> int \<Rightarrow> usb_serial" where
  "ch340_dtr_rts s on =
     (let priv = priv_of s;
          priv = (if on \<noteq> 0
                  then priv\<lparr>mcr := mcr priv OR (CH340_BIT_RTS OR CH340_BIT_DTR)\<rparr>
                  else priv\<lparr>mcr := mcr priv AND NOT (CH340_BIT_RTS OR CH340_BIT_DTR)\<rparr>);
          (r, d1) = ch340_set_handshake (dev s) (mcr priv)
      in set_priv priv (s\<lparr>dev := d1\<rparr>))"

definition ch340_close :: "usb_serial \<Rightarrow> usb_serial" where
  "ch340_close s = s\<lparr>dev := log_action USB_KILL_URB (log_action GENERIC_CLOSE (dev s))\<rparr>"

section \<open>Line settings\<close>

text \<open>Lines 416 to 442 of \<open>ch340_set_termios\<close>: the frame format byte.\<close>

definition ch340_termios_lcr :: "tty_struct \<Rightarrow> u8" where
  "ch340_termios_lcr tty =
     (let l = CH340_LCR_ENABLE_RX OR CH340_LCR_ENABLE_TX;
          l = (if C_CSIZE tty = CS5 then l OR CH340_LCR_CS5
               else if C_CSIZE tty = CS6 then l OR CH340_LCR_CS6
               else if C_CSIZE tty = CS7 then l OR CH340_LCR_CS7
               else if C_CSIZE tty = CS8 then l OR CH340_LCR_CS8
               else l);
          l = (if C_PARENB tty \<noteq> 0 then
                 (let l = l OR CH340_LCR_ENABLE_PAR;
                      l = (if C_PARODD tty = 0 then l OR CH340_LCR_PAR_EVEN else l);
                      l = (if C_CMSPAR tty \<noteq> 0 then l OR CH340_LCR_MARK_SPACE else l)
                  in l)
               else l);
          l = (if C_CSTOPB tty \<noteq> 0 then l OR CH340_LCR_STOP_BITS_2 else l)
      in l)"

text \<open>
  \<open>ch340_set_termios\<close>; \<open>old_termios\<close> is \<open>None\<close> for the NULL pointer. The
  result holds the tty, whose termios the rollback rewrites, and the port.
\<close>

definition ch340_set_termios ::
  "tty_struct \<Rightarrow> usb_serial \<Rightarrow> ktermios option \<Rightarrow> (tty_struct \<times> usb_serial) option" where
  "ch340_set_termios tty s old_termios =
     (if (case old_termios of None \<Rightarrow> False
          | Some ot \<Rightarrow> \<not> tty_termios_hw_change (termios tty) ot)
      then Some (tty, s)
      else
        do {
          let baud = tty_get_baud_rate tty;
          let lcr_byte = ch340_termios_lcr tty;
          (tty1, s1) \<leftarrow>
            (if baud \<noteq> 0 then
               do {
                 let priv = (priv_of s)\<lparr>baud_rate := baud\<rparr>;
                 (r, d1) \<leftarrow> ch340_set_baudrate_lcr (dev s) priv lcr_byte;
                 let s' = s\<lparr>dev := d1\<rparr>;
                 if r < 0 \<and> old_termios \<noteq> None then
                   Some (tty\<lparr>termios := tty_termios_copy_hw (termios tty) (the old_termios)\<rparr>,
                         set_priv (priv\<lparr>baud_rate := tty_termios_baud_rate (the old_termios)\<rparr>) s')
                 else if r = 0 then Some (tty, set_priv (priv\<lparr>lcr := lcr_byte\<rparr>) s')
                 else Some (tty, set_priv priv s')
               }
             else Some (tty, s));
          let priv = priv_of s1;
          let priv =
            (if C_BAUD tty1 = B0
             then priv\<lparr>mcr := mcr priv AND NOT (CH340_BIT_DTR OR CH340_BIT_RTS)\<rparr>
             else if (case old_termios of None \<Rightarrow> False
                      | Some ot \<Rightarrow> c_cflag ot AND CBAUD = B0)
             then priv\<lparr>mcr := mcr priv OR (CH340_BIT_DTR OR CH340_BIT_RTS)\<rparr>
             else priv);
          let (r, d2) = ch340_set_handshake (dev s1) (mcr priv);
          Some (tty1, set_priv priv (s1\<lparr>dev := d2\<rparr>))
        })"

text \<open>\<open>ch340_open\<close>; the tty pointer may be NULL.\<close>

definition ch340_open :: "tty_struct option \<Rightarrow> usb_serial \<Rightarrow> (int \<times> tty_struct option \<times> usb_serial) option" where
  "ch340_open tty s =
     do {
       (tty1, s1) \<leftarrow>
         (case tty of
            None \<Rightarrow> Some (None, s)
          | Some t \<Rightarrow> map_option (\<lambda>(t', s'). (Some t', s')) (ch340_set_termios t s None));
       let (r, d1) = usb_submit_urb (dev s1);
       if r \<noteq> 0 then Some (r, tty1, s1\<lparr>dev := dev_err (Failed_to_submit_urb r) d1\<rparr>)
       else
         (let (r, d2, priv) = ch340_get_status d1 (priv_of s1);
              s2 = set_priv priv (s1\<lparr>dev := d2\<rparr>)
          in if r < 0 then
               Some (r, tty1,
                     s2\<lparr>dev := log_action USB_KILL_URB (dev_err (Failed_to_read_status r) d2)\<rparr>)
             else
               (let (r, d3) = usb_serial_generic_open d2
                in if r \<noteq> 0 then Some (r, tty1, s2\<lparr>dev := log_action USB_KILL_URB d3\<rparr>)
                   else Some (0, tty1, s2\<lparr>dev := d3\<rparr>)))
     }"

section \<open>Break signalling\<close>

text \<open>
  \<open>ch340_break_ctl\<close>. \<open>get_unaligned_le16\<close> reads the two bytes as a
  little-endian 16-bit value.
\<close>

definition get_unaligned_le16 :: "u8 list \<Rightarrow> u16" where
  "get_unaligned_le16 b = ucast (b ! 0) OR push_bit 8 (ucast (b ! 1))"

definition ch340_break_reg :: u16 where
  "ch340_break_reg = push_bit 8 (ucast CH340_REG_LCR) OR ucast CH340_REG_BREAK"

definition ch340_break_ctl :: "usb_serial \<Rightarrow> int \<Rightarrow> usb_serial" where
  "ch340_break_ctl s break_state =
     (let (ok, d0) = kmalloc (dev s)
      in if \<not> ok then s\<lparr>dev := d0\<rparr>
         else
           (let (r, break_reg, d1) = ch340_control_in d0 CH340_REQ_READ_REG ch340_break_reg 0 2
            in if r < 0 then s\<lparr>dev := dev_err (Break_read_error r) d1\<rparr>
               else
                 (let break_reg =
                        (if break_state \<noteq> 0
                         then [break_reg ! 0 AND NOT CH340_NBREAK_BITS,
                               break_reg ! 1 AND NOT CH340_LCR_ENABLE_TX]
                         else [break_reg ! 0 OR CH340_NBREAK_BITS,
                               break_reg ! 1 OR CH340_LCR_ENABLE_TX]);
                      reg_contents = get_unaligned_le16 break_reg;
                      (r, d2) = ch340_control_out d1 CH340_REQ_WRITE_REG ch340_break_reg reg_contents
                  in if r < 0 then s\<lparr>dev := dev_err (Break_write_error r) d2\<rparr>
                     else s\<lparr>dev := d2\<rparr>)))"

section \<open>Modem lines and status\<close>

definition ch340_tiocmset :: "usb_serial \<Rightarrow> u32 \<Rightarrow> u32 \<Rightarrow> int \<times> usb_serial" where
  "ch340_tiocmset s set_bits clear_bits =
     (let priv = priv_of s;
          priv = (if set_bits AND TIOCM_RTS \<noteq> 0 then priv\<lparr>mcr := mcr priv OR CH340_BIT_RTS\<rparr> else priv);
          priv = (if set_bits AND TIOCM_DTR \<noteq> 0 then priv\<lparr>mcr := mcr priv OR CH340_BIT_DTR\<rparr> else priv);
          priv = (if clear_bits AND TIOCM_RTS \<noteq> 0 then priv\<lparr>mcr := mcr priv AND NOT CH340_BIT_RTS\<rparr> else priv);
          priv = (if clear_bits AND TIOCM_DTR \<noteq> 0 then priv\<lparr>mcr := mcr priv AND NOT CH340_BIT_DTR\<rparr> else priv);
          control = mcr priv;
          (r, d1) = ch340_set_handshake (dev s) control
      in (r, set_priv priv (s\<lparr>dev := d1\<rparr>)))"

text \<open>
  \<open>ch340_update_status\<close>; \<open>data\<close> holds the \<open>len\<close> bytes received, so
  \<open>len\<close> is its length. The counters are bumped on the port, the events go
  to the trace.
\<close>

definition ch340_update_status :: "usb_serial \<Rightarrow> u8 list \<Rightarrow> usb_serial" where
  "ch340_update_status s data =
     (if length data < 4 then s
      else
        (let priv = priv_of s;
             status = NOT (data ! 2) AND CH340_BITS_MODEM_STAT;
             delta = status XOR msr priv;
             s1 = set_priv (priv\<lparr>msr := status\<rparr>) s
         in if delta = 0 then s1
            else
              (let ic = icount (port s1);
                   ic = (if delta AND CH340_BIT_CTS \<noteq> 0 then ic\<lparr>cts := cts ic + 1\<rparr> else ic);
                   ic = (if delta AND CH340_BIT_DSR \<noteq> 0 then ic\<lparr>dsr := dsr ic + 1\<rparr> else ic);
                   ic = (if delta AND CH340_BIT_RI \<noteq> 0 then ic\<lparr>rng := rng ic + 1\<rparr> else ic);
                   (ic, d1) =
                     (if delta AND CH340_BIT_DCD \<noteq> 0 then
                        (ic\<lparr>dcd := dcd ic + 1\<rparr>,
                         case port_tty (port s1) of
                           None \<Rightarrow> dev s1
                         | Some tty \<Rightarrow>
                             log_action (DCD_CHANGE (status AND CH340_BIT_DCD \<noteq> 0)) (dev s1))
                      else (ic, dev s1))
               in s1\<lparr>dev := log_action WAKE_UP d1, port := (port s1)\<lparr>icount := ic\<rparr>\<rparr>)))"

text \<open>
  \<open>ch340_read_int_callback\<close>: the urb's status, and its buffer cut to
  \<open>actual_length\<close>.
\<close>

datatype urb_status = URB_OK | URB_ECONNRESET | URB_ENOENT | URB_ESHUTDOWN | URB_OTHER int

definition ch340_read_int_callback :: "usb_serial \<Rightarrow> urb_status \<Rightarrow> u8 list \<Rightarrow> usb_serial" where
  "ch340_read_int_callback s st data =
     (if st = URB_ECONNRESET \<or> st = URB_ENOENT \<or> st = URB_ESHUTDOWN then s
      else
        (let s1 = (if st = URB_OK then ch340_update_status s data else s);
             (status, d1) = usb_submit_urb (dev s1)
         in if status \<noteq> 0 then s1\<lparr>dev := dev_err (Resubmit_failed status) d1\<rparr>
            else s1\<lparr>dev := d1\<rparr>))"

section \<open>Resume\<close>

definition ch340_reset_resume :: "usb_serial \<Rightarrow> (int \<times> usb_serial) option" where
  "ch340_reset_resume s =
     do {
       (r0, d1) \<leftarrow> ch340_configure (dev s) (priv_of s);
       let s1 = s\<lparr>dev := d1\<rparr>;
       if port_initialized (port s1) then
         (let (ret, d2) = usb_submit_urb (dev s1)
          in if ret \<noteq> 0 then Some (ret, s1\<lparr>dev := dev_err (Failed_to_submit_urb ret) d2\<rparr>)
             else
               (let (ret, d3, priv) = ch340_get_status d2 (priv_of s1);
                    d4 = (if ret < 0 then dev_err (Failed_to_read_status ret) d3 else d3);
                    (ret, d5) = usb_serial_generic_resume d4
                in Some (ret, set_priv priv (s1\<lparr>dev := d5\<rparr>))))
       else
         (let (ret, d2) = usb_serial_generic_resume (dev s1)
          in Some (ret, s1\<lparr>dev := d2\<rparr>))
     }"

section \<open>Reachable states of a port\<close>

text \<open>
  A port comes into being by a successful \<open>ch340_port_probe\<close>; from then on
  the driver's entry points run on it, in any order and with any arguments.
  Between two calls the environment may change anything but the private data
  (the chip's registers, the scripts, the tty, the counters).
\<close>

inductive reachable :: "usb_serial \<Rightarrow> bool" where
  probe: "ch340_port_probe d = Some (0, d', Some priv) \<Longrightarrow>
          reachable \<lparr>dev = d', port = \<lparr>port_data = priv, icount = ic,
                                          port_tty = t, port_initialized = i\<rparr>\<rparr>"
| env: "reachable s \<Longrightarrow> port_data (port s') = port_data (port s) \<Longrightarrow> reachable s'"
| op_open: "reachable s \<Longrightarrow> ch340_open tty s = Some (r, tty', s') \<Longrightarrow> reachable s'"
| op_close: "reachable s \<Longrightarrow> reachable (ch340_close s)"
| op_dtr_rts: "reachable s \<Longrightarrow> reachable (ch340_dtr_rts s on)"
| op_set_termios: "reachable s \<Longrightarrow> ch340_set_termios t s old = Some (t', s') \<Longrightarrow> reachable s'"
| op_break_ctl: "reachable s \<Longrightarrow> reachable (ch340_break_ctl s b)"
| op_tiocmset: "reachable s \<Longrightarrow> ch340_tiocmset s st cl = (r, s') \<Longrightarrow> reachable s'"
| op_read_int: "reachable s \<Longrightarrow> reachable (ch340_read_int_callback s st data)"
| op_reset_resume: "reachable s \<Longrightarrow> ch340_reset_resume s = Some (r, s') \<Longrightarrow> reachable s'"

section \<open>Concrete devices, ports and settings\<close>

text \<open>A chip that serves every transfer, with all registers zero and nothing done yet.\<close>

definition idle_device :: usb_device where
  "idle_device = \<lparr>regs = (\<lambda>a. 0), chip_version = 0x27, ctrl_script = [],
                   ksvc_script = (\<lambda>k. []), trace = []\<rparr>"

text \<open>The private data as \<open>ch340_port_probe\<close> leaves it: 9600 baud, 8N1.\<close>

definition default_priv :: ch340_private where
  "default_priv = \<lparr>baud_rate = 9600, mcr = 0, msr = 0, lcr = 0xC3\<rparr>"

text \<open>A termios with the given custom speed (\<open>BOTHER | CS8 | CREAD\<close>).\<close>

definition termios_of_speed :: "u32 \<Rightarrow> ktermios" where
  "termios_of_speed b = \<lparr>c_cflag = 0x10b0, c_ispeed = b, c_ospeed = b\<rparr>"

definition tty_of_speed :: "u32 \<Rightarrow> tty_struct" where
  "tty_of_speed b = \<lparr>termios = termios_of_speed b\<rparr>"

definition zero_icount :: async_icount where
  "zero_icount = \<lparr>cts = 0, dsr = 0, rng = 0, dcd = 0\<rparr>"

text \<open>An open port with a tty, and the same port after the tty has gone.\<close>

definition attached_serial :: usb_serial where
  "attached_serial =
     \<lparr>dev = idle_device,
      port = \<lparr>port_data = default_priv, icount = zero_icount,
               port_tty = Some (tty_of_speed 9600), port_initialized = True\<rparr>\<rparr>"

definition detached_serial :: usb_serial where
  "detached_serial =
     \<lparr>dev = idle_device,
      port = \<lparr>port_data = default_priv, icount = zero_icount,
               port_tty = None, port_initialized = True\<rparr>\<rparr>"

text \<open>A chip whose next reply is one byte short, and a kernel that refuses the next urb.\<close>

definition short_reply_device :: usb_device where
  "short_reply_device = idle_device\<lparr>ctrl_script := [Short 1]\<rparr>"

definition urb_refusing_serial :: usb_serial where
  "urb_refusing_serial =
     attached_serial\<lparr>dev := idle_device\<lparr>ksvc_script := (\<lambda>k. [])(USB_SUBMIT_URB := [Some ENOMEM])\<rparr>\<rparr>"

text \<open>A chip that serves the five transfers of the bring-up and fails the status read.\<close>

definition status_failing_serial :: usb_serial where
  "status_failing_serial =
     attached_serial\<lparr>dev := idle_device\<lparr>ctrl_script :=
       [Served, Served, Served, Served, Served, Failed EPIPE]\<rparr>\<rparr>"

text \<open>Reading a result: the return code, and what was done (nothing is known after a trap).\<close>

definition result_code :: "(int \<times> usb_serial) option \<Rightarrow> int option" where
  "result_code res = map_option fst res"

definition result_trace :: "(int \<times> usb_serial) option \<Rightarrow> action list option" where
  "result_trace res = map_option (\<lambda>(r, s). trace (dev s)) res"

definition result_baud :: "(tty_struct \<times> usb_serial) option \<Rightarrow> u32 option" where
  "result_baud res = map_option (\<lambda>(t, s). baud_rate (priv_of s)) res"

section \<open>Properties of the baud rate search\<close>

text \<open>The loop starts with \<open>divisor = 3\<close>, so it runs at most three times.\<close>

lemma baud_loop_unroll:
  "baud_loop f 3 1 =
     (if f \<le> 0xff then (f, 3, 1)
      else if drop_bit 3 f \<le> 0xff then (drop_bit 3 f, 2, 8)
      else if drop_bit 6 f \<le> 0xff then (drop_bit 6 f, 1, 64)
      else (drop_bit 9 f, 0, 512))"
  apply (subst baud_loop.simps)
  apply (subst baud_loop.simps)
  apply (subst baud_loop.simps)
  apply (subst baud_loop.simps)
  apply (simp add: not_le drop_bit_drop_bit)
  done

lemma baud_loop_divisor:
  assumes "baud_loop f CH340_BAUDBASE_DIVMAX 1 = (f', dv, sh)"
  shows "(scast dv :: u32) \<le> 3"
  using assms by (auto simp: baud_loop_unroll CH340_BAUDBASE_DIVMAX_def split: if_splits)

lemma baud_search_divisor:
  assumes "ch340_baud_search b = Some (bf, bd, x2)"
  shows "bd \<le> 3"
proof -
  from assms obtain f0 where f0: "DIV_ROUND_CLOSEST CH340_BAUDBASE_FACTOR b = Some f0"
    by (cases "DIV_ROUND_CLOSEST CH340_BAUDBASE_FACTOR b") (simp_all add: ch340_baud_search_def)
  obtain f1 d1 s1 where l1: "baud_loop f0 CH340_BAUDBASE_DIVMAX 1 = (f1, d1, s1)"
    by (cases "baud_loop f0 CH340_BAUDBASE_DIVMAX 1")
  from assms f0 l1 obtain g0 where g0: "DIV_ROUND_CLOSEST (CH340_BAUDBASE_FACTOR * 2) b = Some g0"
    by (cases "DIV_ROUND_CLOSEST (CH340_BAUDBASE_FACTOR * 2) b")
       (simp_all add: ch340_baud_search_def split: Option.bind_splits)
  obtain f2 d2 s2 where l2: "baud_loop g0 CH340_BAUDBASE_DIVMAX 1 = (f2, d2, s2)"
    by (cases "baud_loop g0 CH340_BAUDBASE_DIVMAX 1")
  from assms f0 l1 g0 l2 have "bd = scast d1 \<or> bd = scast d2"
    by (simp add: ch340_baud_search_def Let_def split: Option.bind_splits if_splits)
  with baud_loop_divisor [OF l1] baud_loop_divisor [OF l2] show ?thesis by auto
qed

section \<open>What a control transfer leaves in the trace\<close>

lemma usb_control_msg_trace:
  "usb_control_msg d dir rq v i n = (r, buf, d') \<Longrightarrow> trace d' = trace d @ [CTRL dir rq v i n]"
  by (auto simp: usb_control_msg_def next_outcome_def Let_def
           split: list.splits ctrl_outcome.splits direction.splits if_splits)

lemma ch340_control_out_trace:
  "ch340_control_out d rq v i = (r, d') \<Longrightarrow>
   trace d' = trace d @ CTRL DIR_OUT rq v i 0 # (if r < 0 then [DEV_ERR (Failed_to_send r)] else [])"
  by (auto simp: ch340_control_out_def dev_err_def Let_def split: prod.splits if_splits
           dest: usb_control_msg_trace)

lemma ch340_control_out_longer:
  "ch340_control_out d rq v i = (r, d') \<Longrightarrow> length (trace d) < length (trace d')"
  by (drule ch340_control_out_trace) simp

section \<open>The two bytes of the baud payload\<close>

lemma small_bits: "(bd::u32) \<le> 3 \<Longrightarrow> bit bd n \<Longrightarrow> n < 2"
proof -
  assume a: "bd \<le> 3" and b: "bit bd n"
  from a have "bd < 2 ^ 2" by (simp add: word_le_nat_alt word_less_nat_alt)
  then have e: "bd AND mask 2 = bd" by (rule less_mask_eq)
  from b have "bit (bd AND mask 2) n" by (simp only: e)
  then show ?thesis by (simp add: bit_and_iff bit_mask_iff)
qed

lemma u8_4_exp: "(4::u8) = 2 ^ 2" by simp
lemma u8_128_exp: "(128::u8) = 2 ^ 7" by simp
lemma u16_128_exp: "(128::u16) = 2 ^ 7" by simp

lemma payload_hi:
  assumes "bd \<le> (3::u32)"
  shows "hi8 (ucast (push_bit 8 factor OR bd OR push_bit 2 (of_bool x2)) OR 0x80) = ucast factor"
  using assms
  apply (intro bit_word_eqI)
  apply (auto simp: hi8_def bit_simps u16_128_exp simp del: power_numeral dest: small_bits)
  done

lemma payload_lo:
  "lo8 (ucast (push_bit 8 factor OR bd OR push_bit 2 (of_bool x2)) OR 0x80) =
   ucast (bd::u32) OR (if x2 then 4 else 0) OR 0x80"
  apply (intro bit_word_eqI)
  apply (auto simp: lo8_def bit_simps u8_4_exp u8_128_exp u16_128_exp simp del: power_numeral)
  done

lemma payload_bit7: "bit (ucast (bd::u32) OR (if x2 then (4::u8) else 0) OR 0x80) 7"
  by (simp add: bit_simps u8_128_exp del: power_numeral)

section \<open>Rejected rates and the register payload\<close>

text \<open>
  With a nonzero rate, a completed search and a byte factor of at most 254,
  the function goes on to write: the first thing it does is the transfer to
  selector \<open>0x1312\<close>.
\<close>

lemma set_baudrate_lcr_writes:
  assumes nz: "baud_rate priv \<noteq> 0"
    and plan: "ch340_baud_search (baud_rate priv) = Some (bf, bd, x2)"
    and ok: "0x100 - bf \<le> 0xfe"
  shows "\<exists>r d' rest. ch340_set_baudrate_lcr d priv l = Some (r, d') \<and>
           trace d' = trace d @ CTRL DIR_OUT CH340_REQ_WRITE_REG 0x1312
             (ucast (push_bit 8 (0x100 - bf) OR bd OR push_bit 2 (of_bool x2)) OR 0x80) 0 # rest"
proof -
  let ?a = "(ucast (push_bit 8 (0x100 - bf) OR bd OR push_bit 2 (of_bool x2)) OR 0x80) :: u16"
  obtain r1 d1 where w1: "ch340_control_out d CH340_REQ_WRITE_REG 0x1312 ?a = (r1, d1)"
    by (cases "ch340_control_out d CH340_REQ_WRITE_REG 0x1312 ?a")
  obtain r2 d2 where w2: "ch340_control_out d1 CH340_REQ_WRITE_REG 0x2518 (ucast l) = (r2, d2)"
    by (cases "ch340_control_out d1 CH340_REQ_WRITE_REG 0x2518 (ucast l)")
  note t1 = ch340_control_out_trace [OF w1]
  note t2 = ch340_control_out_trace [OF w2]
  from ok have nok: "\<not> 0xfe < 0x100 - bf" by (simp add: not_less)
  show ?thesis
  proof (cases "r1 = 0")
    case True
    with nz plan nok w1 w2 have "ch340_set_baudrate_lcr d priv l = Some (r2, d2)"
      by (simp add: ch340_set_baudrate_lcr_def Let_def)
    moreover from t1 t2
    have "\<exists>rest. trace d2 = trace d @ CTRL DIR_OUT CH340_REQ_WRITE_REG 0x1312 ?a 0 # rest"
      by simp
    ultimately show ?thesis by blast
  next
    case False
    with nz plan nok w1 have "ch340_set_baudrate_lcr d priv l = Some (r1, d1)"
      by (simp add: ch340_set_baudrate_lcr_def Let_def)
    moreover from t1
    have "\<exists>rest. trace d1 = trace d @ CTRL DIR_OUT CH340_REQ_WRITE_REG 0x1312 ?a 0 # rest"
      by simp
    ultimately show ?thesis by blast
  qed
qed

lemma baud_search_9600: "ch340_baud_search 9600 = Some (78, 2, False)"
  by (simp add: ch340_baud_search_def DIV_ROUND_CLOSEST_def CH340_BAUDBASE_FACTOR_def
        CH340_BAUDBASE_DIVMAX_def baud_loop_unroll abs_diff_def)

text \<open>When the loop's result can be divided by.\<close>

lemma drop_mult_nonzero:
  fixes f :: u32
  assumes "2 ^ k \<le> unat f"
  shows "drop_bit k f * 2 ^ k \<noteq> 0"
proof
  assume "drop_bit k f * 2 ^ k = 0"
  then have z: "push_bit k (drop_bit k f) = 0" by (simp add: push_bit_eq_mult)
  have "push_bit k (drop_bit k f) + take_bit k f = f" by (rule bits_ident)
  with z have "take_bit k f = f" by simp
  then have "unat f = unat (take_bit k f)" by simp
  also have "\<dots> = take_bit k (unat f)" by (simp add: unsigned_take_bit_eq)
  also have "\<dots> < 2 ^ k" by (rule take_bit_nat_less_exp)
  finally show False using assms by simp
qed

lemma u32_gt_unat: "(n::u32) < f \<Longrightarrow> unat n < unat f"
  by (simp add: word_less_nat_alt)

lemma baud_loop_product:
  assumes l: "baud_loop f CH340_BAUDBASE_DIVMAX 1 = (f', dv, sh)" and nz: "f \<noteq> 0"
  shows "f' * scast sh \<noteq> 0"
proof -
  have d: "255 < drop_bit k f \<Longrightarrow> 256 * 2 ^ k \<le> unat f" for k
  proof -
    assume "255 < drop_bit k f"
    then have "unat (255 :: u32) < unat (drop_bit k f)" by (rule u32_gt_unat)
    moreover have "unat (drop_bit k f) = unat f div 2 ^ k"
      by (simp only: unat_drop_bit_eq) (simp only: drop_bit_eq_div)
    moreover have "unat (255 :: u32) = 255" by simp
    ultimately have "255 < unat f div 2 ^ k" by (simp only:)
    then have "256 \<le> unat f div 2 ^ k" by simp
    then show ?thesis by (simp add: less_eq_div_iff_mult_less_eq)
  qed
  have c1: "255 < f \<Longrightarrow> drop_bit 3 f * 8 \<noteq> 0"
    using drop_mult_nonzero [of 3 f] d [of 0] by auto
  have c2: "255 < drop_bit 3 f \<Longrightarrow> drop_bit 6 f * 64 \<noteq> 0"
    using drop_mult_nonzero [of 6 f] d [of 3] by auto
  have c3: "255 < drop_bit 6 f \<Longrightarrow> drop_bit 9 f * 512 \<noteq> 0"
    using drop_mult_nonzero [of 9 f] d [of 6] by auto
  from l nz c1 c2 c3 show ?thesis
    by (auto simp: baud_loop_unroll CH340_BAUDBASE_DIVMAX_def not_le split: if_splits)
qed

lemma round_div_zero_iff:
  fixes b :: u32
  assumes "b \<noteq> 0" and "unat x \<le> 12000000"
  shows "((x + b div 2) div b = 0) = (unat x + unat b div 2 < unat b)"
proof -
  have lt: "unat b < 2 ^ 32" using unsigned_less [of b, where 'a = nat] by simp
  then have "unat x + unat b div 2 < 2 ^ 32" using assms by simp
  then have u: "unat (x + b div 2) = unat x + unat b div 2"
    by (simp add: unat_word_ariths unat_div)
  have "((x + b div 2) div b = 0) = (unat ((x + b div 2) div b) = 0)"
    by (simp add: unat_eq_zero)
  also have "\<dots> = ((unat x + unat b div 2) div unat b = 0)"
    by (simp add: unat_div u)
  also have "\<dots> = (unat x + unat b div 2 < unat b)"
    using assms by (simp add: div_eq_0_iff unat_eq_zero)
  finally show ?thesis .
qed


lemma baud_loop_zero: "baud_loop 0 CH340_BAUDBASE_DIVMAX 1 = (0, 3, 1)"
  by (simp add: baud_loop_unroll CH340_BAUDBASE_DIVMAX_def)

text \<open>
  Above 12000000 the rounded quotient \<open>6000000 / baud\<close> is 0, and the
  achieved rate of the single-clock candidate divides by it.
\<close>

lemma baud_search_trap:
  assumes "12000000 < b"
  shows "ch340_baud_search b = None"
proof -
  from assms have ub: "12000000 < unat b" by (simp add: word_less_nat_alt)
  then have nz: "b \<noteq> 0" by auto
  have "(CH340_BAUDBASE_FACTOR + b div 2) div b = 0"
    using ub by (simp add: round_div_zero_iff [OF nz] CH340_BAUDBASE_FACTOR_def)
  with nz show ?thesis
    by (simp add: ch340_baud_search_def DIV_ROUND_CLOSEST_def baud_loop_zero)
qed

text \<open>
  From 1 to 12000000 the search returns a plan, and the plan is the one the
  algorithm describes: both candidates come out of the loop with a nonzero
  \<open>factor * div\<close>; the double-clock candidate is taken exactly when its
  factor exceeds 8 and its deviation is strictly smaller; otherwise, a tie
  included, the single-clock candidate stays.
\<close>

lemma baud_search_in_range:
  assumes nz: "b \<noteq> 0" and le: "b \<le> 12000000"
  shows "\<exists>f1 d1 s1 f2 d2 s2.
     baud_loop ((CH340_BAUDBASE_FACTOR + b div 2) div b) CH340_BAUDBASE_DIVMAX 1 = (f1, d1, s1) \<and>
     baud_loop ((CH340_BAUDBASE_FACTOR * 2 + b div 2) div b) CH340_BAUDBASE_DIVMAX 1 = (f2, d2, s2) \<and>
     f1 * scast s1 \<noteq> 0 \<and> f2 * scast s2 \<noteq> 0 \<and>
     ch340_baud_search b =
       Some (if 8 < f2 \<and>
                abs_diff ((CH340_BAUDBASE_FACTOR * 2 + f2 * scast s2 div 2) div (f2 * scast s2)) b
                  < abs_diff ((CH340_BAUDBASE_FACTOR + f1 * scast s1 div 2) div (f1 * scast s1)) b
             then (f2, scast d2, True) else (f1, scast d1, False))"
proof -
  from le have ub: "unat b \<le> 12000000" by (simp add: word_le_nat_alt)
  have n1: "(CH340_BAUDBASE_FACTOR + b div 2) div b \<noteq> 0"
    using ub by (simp add: round_div_zero_iff [OF nz] CH340_BAUDBASE_FACTOR_def)
  have n2: "(CH340_BAUDBASE_FACTOR * 2 + b div 2) div b \<noteq> 0"
    using ub by (simp add: round_div_zero_iff [OF nz] CH340_BAUDBASE_FACTOR_def)
  obtain f1 d1 s1 where l1:
    "baud_loop ((CH340_BAUDBASE_FACTOR + b div 2) div b) CH340_BAUDBASE_DIVMAX 1 = (f1, d1, s1)"
    by (cases "baud_loop ((CH340_BAUDBASE_FACTOR + b div 2) div b) CH340_BAUDBASE_DIVMAX 1")
  obtain f2 d2 s2 where l2:
    "baud_loop ((CH340_BAUDBASE_FACTOR * 2 + b div 2) div b) CH340_BAUDBASE_DIVMAX 1 = (f2, d2, s2)"
    by (cases "baud_loop ((CH340_BAUDBASE_FACTOR * 2 + b div 2) div b) CH340_BAUDBASE_DIVMAX 1")
  note p1 = baud_loop_product [OF l1 n1]
  note p2 = baud_loop_product [OF l2 n2]
  have "ch340_baud_search b =
       Some (if 8 < f2 \<and>
                abs_diff ((CH340_BAUDBASE_FACTOR * 2 + f2 * scast s2 div 2) div (f2 * scast s2)) b
                  < abs_diff ((CH340_BAUDBASE_FACTOR + f1 * scast s1 div 2) div (f1 * scast s1)) b
             then (f2, scast d2, True) else (f1, scast d1, False))"
    using nz l1 l2 p1 p2
    by (simp add: ch340_baud_search_def DIV_ROUND_CLOSEST_def Let_def)
  with l1 l2 p1 p2 show ?thesis by blast
qed

text \<open>
  C1, at the rate 12000001: the rounded quotient of 6000000 by the rate is 0,
  the loop leaves it alone, and the achieved rate of the single-clock
  candidate is then a division by \<open>factor * div = 0\<close>. The search does not
  produce a plan there, and \<open>ch340_set_baudrate_lcr\<close> does not return.
\<close>

theorem baud_search_divides_by_zero:
  "ch340_baud_search 12000001 = None \<and>
   ch340_set_baudrate_lcr idle_device (default_priv\<lparr>baud_rate := 12000001\<rparr>) 0xC3 = None"
  by (simp add: ch340_set_baudrate_lcr_def ch340_baud_search_def DIV_ROUND_CLOSEST_def
        CH340_BAUDBASE_FACTOR_def CH340_BAUDBASE_DIVMAX_def baud_loop_unroll)

text \<open>
  C3: the function returns \<open>-EINVAL\<close> with the device untouched (no transfer
  was issued: the trace and the registers are those it was called with)
  exactly when the rate is 0, or the search has chosen a factor and
  \<open>0x100\<close> minus that factor, in unsigned arithmetic, exceeds \<open>0xfe\<close>.
  The private data is only read.
\<close>

theorem set_baudrate_lcr_invalid:
  "ch340_set_baudrate_lcr d priv l = Some (- errno_val EINVAL, d) \<longleftrightarrow>
     (baud_rate priv = 0 \<or>
      (\<exists>bf bd x2. ch340_baud_search (baud_rate priv) = Some (bf, bd, x2) \<and> 0x100 - bf > 0xfe))"
proof (cases "baud_rate priv = 0")
  case True
  then show ?thesis by (simp add: ch340_set_baudrate_lcr_def)
next
  case nz: False
  show ?thesis
  proof (cases "ch340_baud_search (baud_rate priv)")
    case None
    with nz show ?thesis by (simp add: ch340_set_baudrate_lcr_def)
  next
    case (Some plan)
    obtain bf bd x2 where plan: "plan = (bf, bd, x2)" by (cases plan)
    show ?thesis
    proof (cases "0x100 - bf > 0xfe")
      case True
      with nz Some plan show ?thesis by (simp add: ch340_set_baudrate_lcr_def)
    next
      case False
      then have "0x100 - bf \<le> 0xfe" by (simp add: not_less)
      from set_baudrate_lcr_writes [OF nz Some [unfolded plan] this, of d l]
      obtain r d' rest where "ch340_set_baudrate_lcr d priv l = Some (r, d')"
        and "length (trace d') > length (trace d)" by auto
      then have "ch340_set_baudrate_lcr d priv l \<noteq> Some (- errno_val EINVAL, d)" by auto
      with nz Some plan False show ?thesis by simp
    qed
  qed
qed

theorem set_baudrate_lcr_invalid_witness:
  "ch340_set_baudrate_lcr idle_device (default_priv\<lparr>baud_rate := 0\<rparr>) 0xC3 =
     Some (- errno_val EINVAL, idle_device) \<and>
   (baud_rate (default_priv\<lparr>baud_rate := 0\<rparr>) = 0 \<or>
    (\<exists>bf bd x2. ch340_baud_search (baud_rate (default_priv\<lparr>baud_rate := 0\<rparr>)) = Some (bf, bd, x2) \<and>
       0x100 - bf > 0xfe))"
  using set_baudrate_lcr_invalid [of idle_device "default_priv\<lparr>baud_rate := 0\<rparr>" "0xC3"]
  by simp

text \<open>
  C4: whenever the rate is representable (nonzero, a plan found, byte factor
  at most 254), the first transfer is a register write to selector \<open>0x1312\<close>
  whose payload has the byte factor \<open>0x100 - best_factor\<close> as its high byte
  and \<open>best_divisor | (x2 ? 4 : 0) | 0x80\<close> as its low byte; bit 7 of the
  low byte is set.
\<close>

theorem set_baudrate_lcr_payload:
  assumes nz: "baud_rate priv \<noteq> 0"
    and plan: "ch340_baud_search (baud_rate priv) = Some (bf, bd, x2)"
    and ok: "0x100 - bf \<le> 0xfe"
  shows "\<exists>a r d' rest. ch340_set_baudrate_lcr d priv l = Some (r, d') \<and>
           trace d' = trace d @ CTRL DIR_OUT CH340_REQ_WRITE_REG 0x1312 a 0 # rest \<and>
           hi8 a = ucast (0x100 - bf) \<and>
           lo8 a = ucast bd OR (if x2 then 4 else 0) OR 0x80 \<and>
           bit (lo8 a) 7"
proof -
  let ?a = "(ucast (push_bit 8 (0x100 - bf) OR bd OR push_bit 2 (of_bool x2)) OR 0x80) :: u16"
  from set_baudrate_lcr_writes [OF nz plan ok, of d l]
  obtain r d' rest where 1: "ch340_set_baudrate_lcr d priv l = Some (r, d')"
    and 2: "trace d' = trace d @ CTRL DIR_OUT CH340_REQ_WRITE_REG 0x1312 ?a 0 # rest" by blast
  have 3: "hi8 ?a = ucast (0x100 - bf)"
    by (rule payload_hi) (rule baud_search_divisor [OF plan])
  have 4: "lo8 ?a = ucast bd OR (if x2 then 4 else 0) OR 0x80" by (rule payload_lo)
  have 5: "bit (lo8 ?a) 7" unfolding 4 by (rule payload_bit7)
  from 1 2 3 4 5 show ?thesis by blast
qed

theorem set_baudrate_lcr_payload_witness:
  "baud_rate default_priv \<noteq> 0 \<and>
   ch340_baud_search (baud_rate default_priv) = Some (78, 2, False) \<and>
   (0x100 - 78 :: u32) \<le> 0xfe \<and>
   (\<exists>a r d' rest. ch340_set_baudrate_lcr idle_device default_priv 0xC3 = Some (r, d') \<and>
      trace d' = trace idle_device @ CTRL DIR_OUT CH340_REQ_WRITE_REG 0x1312 a 0 # rest \<and>
      hi8 a = ucast (0x100 - 78 :: u32) \<and>
      lo8 a = ucast (2::u32) OR (if False then 4 else 0) OR 0x80 \<and>
      bit (lo8 a) 7)"
proof -
  have a: "baud_rate default_priv \<noteq> 0" by (simp add: default_priv_def)
  have b: "ch340_baud_search (baud_rate default_priv) = Some (78, 2, False)"
    by (simp add: default_priv_def baud_search_9600)
  have c: "(0x100 - 78 :: u32) \<le> 0xfe" by simp
  from a b c set_baudrate_lcr_payload [OF a b c, of idle_device "0xC3"] show ?thesis by blast
qed

section \<open>Status notifications\<close>

lemma u8_xor_eq_0: "(x XOR y = 0) = (x = (y::u8))"
proof
  assume "x XOR y = 0"
  then have "x XOR (x XOR y) = x XOR 0" by (simp only:)
  then show "x = y" by (simp only: bit.xor_left_self) simp
next
  assume "x = y"
  then show "x XOR y = 0" by simp
qed

lemma xor_and_differs: "((a XOR b) AND m \<noteq> 0) = (a AND m \<noteq> b AND (m::u8))"
proof -
  have "(a XOR b) AND m = (a AND m) XOR (b AND m)"
    by (simp add: bit.conj_xor_distrib2)
  then show ?thesis by (simp add: u8_xor_eq_0)
qed

lemma update_status_short: "length data < 4 \<Longrightarrow> ch340_update_status s data = s"
  by (simp add: ch340_update_status_def)

lemma update_status_priv:
  "4 \<le> length data \<Longrightarrow>
   priv_of (ch340_update_status s data) =
     (priv_of s)\<lparr>msr := NOT (data ! 2) AND CH340_BITS_MODEM_STAT\<rparr>"
  by (simp add: ch340_update_status_def Let_def priv_of_def set_priv_def split: prod.splits)

lemma update_status_icount:
  "4 \<le> length data \<Longrightarrow>
   icount (port (ch340_update_status s data)) =
     (let delta = (NOT (data ! 2) AND CH340_BITS_MODEM_STAT) XOR msr (priv_of s);
          ic = icount (port s)
      in \<lparr>cts = cts ic + (if delta AND CH340_BIT_CTS \<noteq> 0 then 1 else 0),
          dsr = dsr ic + (if delta AND CH340_BIT_DSR \<noteq> 0 then 1 else 0),
          rng = rng ic + (if delta AND CH340_BIT_RI \<noteq> 0 then 1 else 0),
          dcd = dcd ic + (if delta AND CH340_BIT_DCD \<noteq> 0 then 1 else 0)\<rparr>)"
  apply (cases "(NOT (data ! 2) AND CH340_BITS_MODEM_STAT) XOR msr (priv_of s) = 0")
   apply (simp add: ch340_update_status_def Let_def priv_of_def set_priv_def)
  apply (simp add: ch340_update_status_def Let_def priv_of_def set_priv_def split: prod.splits)
  done

lemma update_status_trace:
  "4 \<le> length data \<Longrightarrow>
   trace (dev (ch340_update_status s data)) =
     (let status = NOT (data ! 2) AND CH340_BITS_MODEM_STAT;
          delta = status XOR msr (priv_of s)
      in trace (dev s) @
         (if delta AND CH340_BIT_DCD \<noteq> 0 \<and> port_tty (port s) \<noteq> None
          then [DCD_CHANGE (status AND CH340_BIT_DCD \<noteq> 0)] else []) @
         (if delta \<noteq> 0 then [WAKE_UP] else []))"
  apply (cases "(NOT (data ! 2) AND CH340_BITS_MODEM_STAT) XOR msr (priv_of s) = 0")
   apply (simp add: ch340_update_status_def Let_def priv_of_def set_priv_def)
  apply (auto simp add: ch340_update_status_def Let_def priv_of_def set_priv_def log_action_def split: prod.splits option.splits)
  done


text \<open>
  C2, as the code has it. A notification shorter than 4 bytes changes
  nothing. One of at least 4 bytes sets \<open>msr\<close> to the complement of its
  third byte masked with \<open>0x0f\<close> and leaves the rest of the private data
  alone; each of the four counters goes up by one exactly when its bit of the
  new status differs from the old \<open>msr\<close>; the carrier-detect event, carrying
  the new DCD value, is raised exactly when the DCD bit changed and the port
  has a tty; the waiters are woken exactly when some bit changed; and when
  nothing changed, no counter moves and nothing is raised.
\<close>

theorem update_status_delta:
  "(length data < 4 \<longrightarrow> ch340_update_status s data = s) \<and>
   (4 \<le> length data \<longrightarrow>
      (let old = msr (priv_of s);
           status = NOT (data ! 2) AND CH340_BITS_MODEM_STAT;
           s' = ch340_update_status s data
       in priv_of s' = (priv_of s)\<lparr>msr := status\<rparr> \<and>
          cts (icount (port s')) = cts (icount (port s)) +
            (if status AND CH340_BIT_CTS \<noteq> old AND CH340_BIT_CTS then 1 else 0) \<and>
          dsr (icount (port s')) = dsr (icount (port s)) +
            (if status AND CH340_BIT_DSR \<noteq> old AND CH340_BIT_DSR then 1 else 0) \<and>
          rng (icount (port s')) = rng (icount (port s)) +
            (if status AND CH340_BIT_RI \<noteq> old AND CH340_BIT_RI then 1 else 0) \<and>
          dcd (icount (port s')) = dcd (icount (port s)) +
            (if status AND CH340_BIT_DCD \<noteq> old AND CH340_BIT_DCD then 1 else 0) \<and>
          trace (dev s') = trace (dev s) @
            (if status AND CH340_BIT_DCD \<noteq> old AND CH340_BIT_DCD \<and> port_tty (port s) \<noteq> None
             then [DCD_CHANGE (status AND CH340_BIT_DCD \<noteq> 0)] else []) @
            (if status \<noteq> old then [WAKE_UP] else []) \<and>
          (status = old \<longrightarrow> icount (port s') = icount (port s) \<and> trace (dev s') = trace (dev s))))"
proof (intro conjI impI)
  assume "length data < 4"
  then show "ch340_update_status s data = s" by (rule update_status_short)
next
  assume len: "4 \<le> length data"
  have eq0: "((NOT (data ! 2) AND CH340_BITS_MODEM_STAT) XOR msr (priv_of s) \<noteq> 0) =
             (NOT (data ! 2) AND CH340_BITS_MODEM_STAT \<noteq> msr (priv_of s))"
    by (simp add: u8_xor_eq_0)
  show "let old = msr (priv_of s);
           status = NOT (data ! 2) AND CH340_BITS_MODEM_STAT;
           s' = ch340_update_status s data
       in priv_of s' = (priv_of s)\<lparr>msr := status\<rparr> \<and>
          cts (icount (port s')) = cts (icount (port s)) +
            (if status AND CH340_BIT_CTS \<noteq> old AND CH340_BIT_CTS then 1 else 0) \<and>
          dsr (icount (port s')) = dsr (icount (port s)) +
            (if status AND CH340_BIT_DSR \<noteq> old AND CH340_BIT_DSR then 1 else 0) \<and>
          rng (icount (port s')) = rng (icount (port s)) +
            (if status AND CH340_BIT_RI \<noteq> old AND CH340_BIT_RI then 1 else 0) \<and>
          dcd (icount (port s')) = dcd (icount (port s)) +
            (if status AND CH340_BIT_DCD \<noteq> old AND CH340_BIT_DCD then 1 else 0) \<and>
          trace (dev s') = trace (dev s) @
            (if status AND CH340_BIT_DCD \<noteq> old AND CH340_BIT_DCD \<and> port_tty (port s) \<noteq> None
             then [DCD_CHANGE (status AND CH340_BIT_DCD \<noteq> 0)] else []) @
            (if status \<noteq> old then [WAKE_UP] else []) \<and>
          (status = old \<longrightarrow> icount (port s') = icount (port s) \<and> trace (dev s') = trace (dev s))"
    unfolding Let_def
    apply (simp only: update_status_priv [OF len] update_status_icount [OF len]
        update_status_trace [OF len] Let_def xor_and_differs eq0)
    apply simp
    done
qed

theorem update_status_delta_witness:
  "4 \<le> length [0x08, 0x00, 0xF7, 0xEE :: u8] \<and>
   msr (priv_of attached_serial) = 0 \<and>
   msr (priv_of (ch340_update_status attached_serial [0x08, 0x00, 0xF7, 0xEE])) = 0x08 \<and>
   dcd (icount (port (ch340_update_status attached_serial [0x08, 0x00, 0xF7, 0xEE]))) =
     dcd (icount (port attached_serial)) + 1 \<and>
   cts (icount (port (ch340_update_status attached_serial [0x08, 0x00, 0xF7, 0xEE]))) =
     cts (icount (port attached_serial)) \<and>
   trace (dev (ch340_update_status attached_serial [0x08, 0x00, 0xF7, 0xEE])) =
     trace (dev attached_serial) @ [DCD_CHANGE True, WAKE_UP] \<and>
   length [0x08, 0x00 :: u8] < 4 \<and>
   ch340_update_status attached_serial [0x08, 0x00] = attached_serial"
  using update_status_delta [of "[0x08, 0x00, 0xF7, 0xEE]" attached_serial]
    update_status_delta [of "[0x08, 0x00]" attached_serial]
  by (simp add: Let_def attached_serial_def priv_of_def default_priv_def
        CH340_BITS_MODEM_STAT_def CH340_BIT_DCD_def CH340_BIT_CTS_def)

text \<open>
  On a port without a tty the scenario's notification flips the DCD bit, yet
  the only thing raised is the wake-up.
\<close>

theorem update_status_no_tty_no_event:
  "msr (priv_of detached_serial) AND CH340_BIT_DCD = 0 \<and>
   msr (priv_of (ch340_update_status detached_serial [0x08, 0x00, 0xF7, 0xEE])) AND CH340_BIT_DCD = 0x08 \<and>
   trace (dev detached_serial) = [] \<and>
   trace (dev (ch340_update_status detached_serial [0x08, 0x00, 0xF7, 0xEE])) = [WAKE_UP]"
  by (simp add: ch340_update_status_def Let_def detached_serial_def priv_of_def set_priv_def
        default_priv_def idle_device_def log_action_def zero_icount_def
        CH340_BITS_MODEM_STAT_def CH340_BIT_DCD_def CH340_BIT_CTS_def CH340_BIT_DSR_def
        CH340_BIT_RI_def)

section \<open>Changing the line settings\<close>

text \<open>
  What \<open>ch340_set_termios\<close> leaves behind when the settings call for
  reprogramming, the requested rate is nonzero and the programming step
  returns \<open>r\<close>.
\<close>

lemma set_termios_effect:
  assumes baud: "tty_get_baud_rate tty \<noteq> 0"
    and change: "case old of None \<Rightarrow> True | Some ot \<Rightarrow> tty_termios_hw_change (termios tty) ot"
    and prog: "ch340_set_baudrate_lcr (dev s) ((priv_of s)\<lparr>baud_rate := tty_get_baud_rate tty\<rparr>)
                 (ch340_termios_lcr tty) = Some (r, d1)"
  shows "\<exists>tty' s'. ch340_set_termios tty s old = Some (tty', s') \<and>
           baud_rate (priv_of s') =
             (case old of
                None \<Rightarrow> tty_get_baud_rate tty
              | Some ot \<Rightarrow> if r < 0 then tty_termios_baud_rate ot else tty_get_baud_rate tty) \<and>
           lcr (priv_of s') = (if r = 0 then ch340_termios_lcr tty else lcr (priv_of s)) \<and>
           termios tty' =
             (case old of
                None \<Rightarrow> termios tty
              | Some ot \<Rightarrow> if r < 0 then tty_termios_copy_hw (termios tty) ot else termios tty)"
proof (cases old)
  case None
  with baud prog show ?thesis
    by (simp add: ch340_set_termios_def Let_def priv_of_def set_priv_def split: prod.splits)
next
  case (Some ot)
  with change have hw: "tty_termios_hw_change (termios tty) ot" by simp
  show ?thesis
  proof (cases "r < 0")
    case True
    with Some hw baud prog show ?thesis
      by (simp add: ch340_set_termios_def Let_def priv_of_def set_priv_def split: prod.splits)
  next
    case False
    with Some hw baud prog show ?thesis
      by (simp add: ch340_set_termios_def Let_def priv_of_def set_priv_def split: prod.splits)
  qed
qed

text \<open>
  C9: with old settings present and no hardware-relevant change, the call
  returns at once: the tty, the device (registers, trace: no transfer) and
  the port with all its private data are what they were.
\<close>

theorem set_termios_redundant:
  "\<not> tty_termios_hw_change (termios tty) ot \<Longrightarrow> ch340_set_termios tty s (Some ot) = Some (tty, s)"
  by (simp add: ch340_set_termios_def)

theorem set_termios_redundant_witness:
  "\<not> tty_termios_hw_change (termios (tty_of_speed 9600)) (termios_of_speed 9600) \<and>
   ch340_set_termios (tty_of_speed 9600) attached_serial (Some (termios_of_speed 9600)) =
     Some (tty_of_speed 9600, attached_serial)"
proof -
  have h: "\<not> tty_termios_hw_change (termios (tty_of_speed 9600)) (termios_of_speed 9600)"
    by (simp add: tty_termios_hw_change_def tty_of_speed_def)
  from h set_termios_redundant [OF h, of attached_serial] show ?thesis by simp
qed

lemma baud_search_5000000: "ch340_baud_search 5000000 = Some (1, 3, False)"
  by (simp add: ch340_baud_search_def DIV_ROUND_CLOSEST_def CH340_BAUDBASE_FACTOR_def
        CH340_BAUDBASE_DIVMAX_def baud_loop_unroll abs_diff_def)

lemma set_baudrate_lcr_5000000:
  "baud_rate priv = 5000000 \<Longrightarrow> ch340_set_baudrate_lcr d priv l = Some (- 22, d)"
  by (simp add: ch340_set_baudrate_lcr_def baud_search_5000000)


text \<open>
  C5, as the code has it. For a request that is not redundant, with a nonzero
  rate, whose programming step returns \<open>r\<close>: if the step failed
  (\<open>r < 0\<close>) and old settings are present, the stored rate becomes the rate
  of the old settings and the tty's hardware settings are copied back from
  them; without old settings the stored rate stays the requested one. The
  stored frame format becomes the new byte when \<open>r = 0\<close> and is unchanged
  otherwise.
\<close>

theorem set_termios_rollback:
  assumes "tty_get_baud_rate tty \<noteq> 0"
    and "case old of None \<Rightarrow> True | Some ot \<Rightarrow> tty_termios_hw_change (termios tty) ot"
    and "ch340_set_baudrate_lcr (dev s) ((priv_of s)\<lparr>baud_rate := tty_get_baud_rate tty\<rparr>)
           (ch340_termios_lcr tty) = Some (r, d1)"
  shows "\<exists>tty' s'. ch340_set_termios tty s old = Some (tty', s') \<and>
           baud_rate (priv_of s') =
             (case old of
                None \<Rightarrow> tty_get_baud_rate tty
              | Some ot \<Rightarrow> if r < 0 then tty_termios_baud_rate ot else tty_get_baud_rate tty) \<and>
           lcr (priv_of s') = (if r = 0 then ch340_termios_lcr tty else lcr (priv_of s)) \<and>
           termios tty' =
             (case old of
                None \<Rightarrow> termios tty
              | Some ot \<Rightarrow> if r < 0 then tty_termios_copy_hw (termios tty) ot else termios tty)"
  using assms by (rule set_termios_effect)

theorem set_termios_rollback_witness:
  "tty_get_baud_rate (tty_of_speed 5000000) \<noteq> 0 \<and>
   (case Some (termios_of_speed 9600) of None \<Rightarrow> True
    | Some ot \<Rightarrow> tty_termios_hw_change (termios (tty_of_speed 5000000)) ot) \<and>
   ch340_set_baudrate_lcr (dev attached_serial)
     ((priv_of attached_serial)\<lparr>baud_rate := tty_get_baud_rate (tty_of_speed 5000000)\<rparr>)
     (ch340_termios_lcr (tty_of_speed 5000000)) = Some (- 22, dev attached_serial) \<and>
   (\<exists>tty' s'. ch340_set_termios (tty_of_speed 5000000) attached_serial
                 (Some (termios_of_speed 9600)) = Some (tty', s') \<and>
      baud_rate (priv_of s') = 9600 \<and>
      lcr (priv_of s') = lcr (priv_of attached_serial) \<and>
      termios tty' = termios_of_speed 9600)"
proof -
  have a: "tty_get_baud_rate (tty_of_speed 5000000) \<noteq> 0"
    by (simp add: tty_get_baud_rate_def tty_termios_baud_rate_def tty_of_speed_def
          termios_of_speed_def)
  have b: "case Some (termios_of_speed 9600) of None \<Rightarrow> True
           | Some ot \<Rightarrow> tty_termios_hw_change (termios (tty_of_speed 5000000)) ot"
    by (simp add: tty_termios_hw_change_def tty_of_speed_def termios_of_speed_def)
  have c: "ch340_set_baudrate_lcr (dev attached_serial)
     ((priv_of attached_serial)\<lparr>baud_rate := tty_get_baud_rate (tty_of_speed 5000000)\<rparr>)
     (ch340_termios_lcr (tty_of_speed 5000000)) = Some (- 22, dev attached_serial)"
    by (rule set_baudrate_lcr_5000000)
       (simp add: tty_get_baud_rate_def tty_termios_baud_rate_def tty_of_speed_def
          termios_of_speed_def)
  have d: "tty_termios_copy_hw (termios (tty_of_speed 5000000)) (termios_of_speed 9600) =
           termios_of_speed 9600"
    by (simp add: tty_termios_copy_hw_def tty_of_speed_def termios_of_speed_def
          HUPCL_def CREAD_def CLOCAL_def)
  from set_termios_rollback [OF a b c]
  show ?thesis using a b c d
    by (simp add: tty_termios_baud_rate_def termios_of_speed_def)
qed

text \<open>
  Without old settings (the call made by \<open>ch340_open\<close>) a failed rate stays
  stored: 9600 before, 5000000 requested and rejected, 5000000 after.
\<close>

theorem set_termios_no_old_keeps_failed_rate:
  "baud_rate (priv_of attached_serial) = 9600 \<and>
   tty_get_baud_rate (tty_of_speed 5000000) = 5000000 \<and>
   ch340_set_baudrate_lcr (dev attached_serial)
     ((priv_of attached_serial)\<lparr>baud_rate := 5000000\<rparr>)
     (ch340_termios_lcr (tty_of_speed 5000000)) = Some (- 22, dev attached_serial) \<and>
   result_baud (ch340_set_termios (tty_of_speed 5000000) attached_serial None) = Some 5000000"
proof -
  have a: "tty_get_baud_rate (tty_of_speed 5000000) = 5000000"
    by (simp add: tty_get_baud_rate_def tty_termios_baud_rate_def tty_of_speed_def
          termios_of_speed_def)
  have c: "ch340_set_baudrate_lcr (dev attached_serial)
     ((priv_of attached_serial)\<lparr>baud_rate := tty_get_baud_rate (tty_of_speed 5000000)\<rparr>)
     (ch340_termios_lcr (tty_of_speed 5000000)) = Some (- 22, dev attached_serial)"
    by (rule set_baudrate_lcr_5000000) (simp add: a)
  have e: "result_baud (ch340_set_termios (tty_of_speed 5000000) attached_serial None) =
           Some 5000000"
    using set_termios_effect [of "tty_of_speed 5000000" None attached_serial "- 22"
        "dev attached_serial"] a c
    by (auto simp: result_baud_def)
  have f: "baud_rate (priv_of attached_serial) = 9600"
    by (simp add: priv_of_def attached_serial_def default_priv_def)
  from a c e f show ?thesis by simp
qed

section \<open>Short reads and the bring-up\<close>

lemma dev_err_trace: "trace (dev_err m d) = trace d @ [DEV_ERR m]"
  by (simp add: dev_err_def)

lemma ksvc_call_trace: "ksvc_call k d = (e, d') \<Longrightarrow> trace d' = trace d @ [KSVC k]"
  by (auto simp: ksvc_call_def Let_def split: list.splits)

lemma kmalloc_trace: "kmalloc d = (ok, d') \<Longrightarrow> trace d' = trace d @ [KSVC KMALLOC]"
  by (auto simp: kmalloc_def split: prod.splits dest: ksvc_call_trace)

lemma kmalloc_ctrl_script: "kmalloc d = (ok, d') \<Longrightarrow> ctrl_script d' = ctrl_script d"
  by (auto simp: kmalloc_def ksvc_call_def Let_def split: prod.splits list.splits)

lemma usb_control_msg_short:
  "ctrl_script d = Short k # rest \<Longrightarrow> k < n \<Longrightarrow>
   \<exists>buf d'. usb_control_msg d DIR_IN rq v i n = (int (length buf), buf, d') \<and> length buf \<le> k"
  by (simp add: usb_control_msg_def next_outcome_def Let_def)

lemma control_in_cases:
  assumes "usb_control_msg d DIR_IN rq v i n = (r, buf, d1)"
  shows "ch340_control_in d rq v i n =
     (if r < int n then
        if 0 \<le> r then (- errno_val EIO, buf,
                         dev_err (Failed_to_receive (- errno_val EIO))
                           (dev_err (Short_control_message r n) d1))
        else (r, buf, dev_err (Failed_to_receive r) d1)
      else (0, buf, d1))"
  using assms by (simp add: ch340_control_in_def Let_def)

text \<open>
  C7: a read that brings fewer bytes than asked for makes \<open>ch340_control_in\<close>
  return \<open>-EIO\<close> and log the short-read message before the failure message;
  a transport failure is returned as it came and logs the failure message
  only, so the two are told apart. When the version read of the bring-up
  comes back short (1 byte of 2), \<open>ch340_configure\<close> fails with \<open>-EIO\<close>
  and has issued nothing but that read: the serial-init request is never sent.
\<close>

theorem control_in_short_read:
  "(usb_control_msg d DIR_IN rq v i n = (r, buf, d1) \<and> 0 \<le> r \<and> r < int n \<longrightarrow>
      (\<exists>d2. ch340_control_in d rq v i n = (- errno_val EIO, buf, d2) \<and>
            trace d2 = trace d @ [CTRL DIR_IN rq v i n, DEV_ERR (Short_control_message r n),
                                  DEV_ERR (Failed_to_receive (- errno_val EIO))])) \<and>
   (usb_control_msg d DIR_IN rq v i n = (r, buf, d1) \<and> r < 0 \<longrightarrow>
      (\<exists>d2. ch340_control_in d rq v i n = (r, buf, d2) \<and>
            trace d2 = trace d @ [CTRL DIR_IN rq v i n, DEV_ERR (Failed_to_receive r)])) \<and>
   (fst (kmalloc d) \<and> ctrl_script d = Short k # rest \<and> k < 2 \<longrightarrow>
      (\<exists>m d'. ch340_configure d priv = Some (- errno_val EIO, d') \<and> m \<le> k \<and>
            trace d' = trace d @ [KSVC KMALLOC, CTRL DIR_IN CH340_REQ_READ_VERSION 0 0 2,
                                  DEV_ERR (Short_control_message (int m) 2),
                                  DEV_ERR (Failed_to_receive (- errno_val EIO))]))"
proof (intro conjI impI)
  assume a: "usb_control_msg d DIR_IN rq v i n = (r, buf, d1) \<and> 0 \<le> r \<and> r < int n"
  then have "trace d1 = trace d @ [CTRL DIR_IN rq v i n]" by (auto dest: usb_control_msg_trace)
  with a show "\<exists>d2. ch340_control_in d rq v i n = (- errno_val EIO, buf, d2) \<and>
            trace d2 = trace d @ [CTRL DIR_IN rq v i n, DEV_ERR (Short_control_message r n),
                                  DEV_ERR (Failed_to_receive (- errno_val EIO))]"
    by (simp add: control_in_cases dev_err_trace)
next
  assume a: "usb_control_msg d DIR_IN rq v i n = (r, buf, d1) \<and> r < 0"
  then have "trace d1 = trace d @ [CTRL DIR_IN rq v i n]" by (auto dest: usb_control_msg_trace)
  with a show "\<exists>d2. ch340_control_in d rq v i n = (r, buf, d2) \<and>
            trace d2 = trace d @ [CTRL DIR_IN rq v i n, DEV_ERR (Failed_to_receive r)]"
    by (simp add: control_in_cases dev_err_trace)
next
  assume a: "fst (kmalloc d) \<and> ctrl_script d = Short k # rest \<and> k < 2"
  obtain d0 where k0: "kmalloc d = (True, d0)" using a by (cases "kmalloc d") auto
  have t0: "trace d0 = trace d @ [KSVC KMALLOC]" by (rule kmalloc_trace [OF k0])
  have "ctrl_script d0 = Short k # rest" using a kmalloc_ctrl_script [OF k0] by simp
  from usb_control_msg_short [OF this, of 2 CH340_REQ_READ_VERSION 0 0] a
  obtain buf d1 where u: "usb_control_msg d0 DIR_IN CH340_REQ_READ_VERSION 0 0 2 =
      (int (length buf), buf, d1)" and len: "length buf \<le> k" by auto
  have t1: "trace d1 = trace d0 @ [CTRL DIR_IN CH340_REQ_READ_VERSION 0 0 2]"
    by (rule usb_control_msg_trace [OF u])
  from len a have lt: "int (length buf) < 2" by simp
  have ci: "ch340_control_in d0 CH340_REQ_READ_VERSION 0 0 2 =
      (- errno_val EIO, buf, dev_err (Failed_to_receive (- errno_val EIO))
         (dev_err (Short_control_message (int (length buf)) 2) d1))"
    using lt by (simp add: control_in_cases [OF u])
  have "ch340_configure d priv = Some (- errno_val EIO,
      dev_err (Failed_to_receive (- errno_val EIO))
         (dev_err (Short_control_message (int (length buf)) 2) d1))"
    by (simp add: ch340_configure_def k0 ci)
  with t0 t1 len
  show "\<exists>m d'. ch340_configure d priv = Some (- errno_val EIO, d') \<and> m \<le> k \<and>
            trace d' = trace d @ [KSVC KMALLOC, CTRL DIR_IN CH340_REQ_READ_VERSION 0 0 2,
                                  DEV_ERR (Short_control_message (int m) 2),
                                  DEV_ERR (Failed_to_receive (- errno_val EIO))]"
    by (auto simp: dev_err_trace)
qed


theorem control_in_short_read_witness:
  "(usb_control_msg short_reply_device DIR_IN CH340_REQ_READ_VERSION 0 0 2 =
      (1, [0x27], idle_device\<lparr>trace := [CTRL DIR_IN CH340_REQ_READ_VERSION 0 0 2]\<rparr>) \<and>
    (0::int) \<le> 1 \<and> (1::int) < int 2 \<and>
    (\<exists>d2. ch340_control_in short_reply_device CH340_REQ_READ_VERSION 0 0 2 =
             (- errno_val EIO, [0x27], d2) \<and>
           trace d2 = trace short_reply_device @
             [CTRL DIR_IN CH340_REQ_READ_VERSION 0 0 2, DEV_ERR (Short_control_message 1 2),
              DEV_ERR (Failed_to_receive (- errno_val EIO))])) \<and>
   (usb_control_msg (idle_device\<lparr>ctrl_script := [Failed EPIPE]\<rparr>) DIR_IN
        CH340_REQ_READ_VERSION 0 0 2 =
      (- 32, [], idle_device\<lparr>trace := [CTRL DIR_IN CH340_REQ_READ_VERSION 0 0 2]\<rparr>) \<and>
    (- 32 :: int) < 0 \<and>
    (\<exists>d2. ch340_control_in (idle_device\<lparr>ctrl_script := [Failed EPIPE]\<rparr>)
             CH340_REQ_READ_VERSION 0 0 2 = (- 32, [], d2) \<and>
           trace d2 = trace (idle_device\<lparr>ctrl_script := [Failed EPIPE]\<rparr>) @
             [CTRL DIR_IN CH340_REQ_READ_VERSION 0 0 2, DEV_ERR (Failed_to_receive (- 32))])) \<and>
   (fst (kmalloc short_reply_device) \<and> ctrl_script short_reply_device = Short 1 # [] \<and>
    (1::nat) < 2 \<and>
    (\<exists>m d'. ch340_configure short_reply_device default_priv = Some (- errno_val EIO, d') \<and>
       m \<le> 1 \<and>
       trace d' = trace short_reply_device @
         [KSVC KMALLOC, CTRL DIR_IN CH340_REQ_READ_VERSION 0 0 2,
          DEV_ERR (Short_control_message (int m) 2),
          DEV_ERR (Failed_to_receive (- errno_val EIO))]))"
proof -
  have a: "usb_control_msg short_reply_device DIR_IN CH340_REQ_READ_VERSION 0 0 2 =
      (1, [0x27], idle_device\<lparr>trace := [CTRL DIR_IN CH340_REQ_READ_VERSION 0 0 2]\<rparr>)"
    by (simp add: usb_control_msg_def next_outcome_def short_reply_device_def idle_device_def
          chip_reply_def CH340_REQ_READ_VERSION_def CH340_REQ_READ_REG_def)
  have b: "usb_control_msg (idle_device\<lparr>ctrl_script := [Failed EPIPE]\<rparr>) DIR_IN
        CH340_REQ_READ_VERSION 0 0 2 =
      (- 32, [], idle_device\<lparr>trace := [CTRL DIR_IN CH340_REQ_READ_VERSION 0 0 2]\<rparr>)"
    by (simp add: usb_control_msg_def next_outcome_def idle_device_def)
  have c: "fst (kmalloc short_reply_device) \<and> ctrl_script short_reply_device = Short 1 # [] \<and>
    (1::nat) < 2"
    by (simp add: kmalloc_def ksvc_call_def short_reply_device_def idle_device_def)
  from a b c
    control_in_short_read [of short_reply_device CH340_REQ_READ_VERSION 0 0 2 1 "[0x27]"
      "idle_device\<lparr>trace := [CTRL DIR_IN CH340_REQ_READ_VERSION 0 0 2]\<rparr>"]
    control_in_short_read [of "idle_device\<lparr>ctrl_script := [Failed EPIPE]\<rparr>"
      CH340_REQ_READ_VERSION 0 0 2 "- 32" "[]"
      "idle_device\<lparr>trace := [CTRL DIR_IN CH340_REQ_READ_VERSION 0 0 2]\<rparr>"]
    control_in_short_read [of short_reply_device _ _ _ _ _ _ _ 1 "[]" default_priv]
  show ?thesis by simp
qed

section \<open>Resume after a bus reset\<close>

lemma usb_submit_urb_trace:
  "usb_submit_urb d = (r, d') \<Longrightarrow> trace d' = trace d @ [KSVC USB_SUBMIT_URB]"
  by (auto simp: usb_submit_urb_def split: prod.splits dest: ksvc_call_trace)

lemma usb_serial_generic_resume_trace:
  "usb_serial_generic_resume d = (r, d') \<Longrightarrow> trace d' = trace d @ [KSVC GENERIC_RESUME]"
  by (auto simp: usb_serial_generic_resume_def split: prod.splits dest: ksvc_call_trace)

lemma ch340_control_in_trace:
  "ch340_control_in d rq v i n = (r, buf, d') \<Longrightarrow> \<exists>mid. trace d' = trace d @ mid"
proof -
  assume a: "ch340_control_in d rq v i n = (r, buf, d')"
  obtain r0 b0 d0 where u: "usb_control_msg d DIR_IN rq v i n = (r0, b0, d0)"
    by (cases "usb_control_msg d DIR_IN rq v i n")
  from usb_control_msg_trace [OF u] a show ?thesis
    by (auto simp: control_in_cases [OF u] dev_err_trace split: if_splits)
qed

lemma ch340_get_status_trace:
  "ch340_get_status d p = (r, d', p') \<Longrightarrow> \<exists>mid. trace d' = trace d @ mid"
proof -
  assume a: "ch340_get_status d p = (r, d', p')"
  obtain ok d0 where k: "kmalloc d = (ok, d0)" by (cases "kmalloc d")
  obtain r1 b1 d1 where c: "ch340_control_in d0 CH340_REQ_READ_REG 0x0706 0 2 = (r1, b1, d1)"
    by (cases "ch340_control_in d0 CH340_REQ_READ_REG 0x0706 0 2")
  from kmalloc_trace [OF k] ch340_control_in_trace [OF c] a k c show ?thesis
    by (auto simp: ch340_get_status_def split: if_splits)
qed

text \<open>
  The three ways through \<open>ch340_reset_resume\<close> once the bring-up has
  returned: port not initialised, urb refused, urb accepted.
\<close>

lemma reset_resume_cases:
  assumes cfg: "ch340_configure (dev s) (priv_of s) = Some (r0, d1)"
    and sub: "usb_submit_urb d1 = (ret, d2)"
    and st: "ch340_get_status d2 (priv_of s) = (r1, d3, priv')"
  shows "\<exists>rr s'. ch340_reset_resume s = Some (rr, s') \<and>
     (\<not> port_initialized (port s) \<longrightarrow>
        rr = fst (usb_serial_generic_resume d1) \<and> priv_of s' = priv_of s \<and>
        trace (dev s') = trace d1 @ [KSVC GENERIC_RESUME]) \<and>
     (port_initialized (port s) \<and> ret \<noteq> 0 \<longrightarrow>
        rr = ret \<and> priv_of s' = priv_of s \<and>
        trace (dev s') = trace d1 @ [KSVC USB_SUBMIT_URB, DEV_ERR (Failed_to_submit_urb ret)]) \<and>
     (port_initialized (port s) \<and> ret = 0 \<longrightarrow>
        rr = fst (usb_serial_generic_resume
                    (if r1 < 0 then dev_err (Failed_to_read_status r1) d3 else d3)) \<and>
        priv_of s' = priv' \<and>
        (\<exists>mid. trace (dev s') = trace d1 @ KSVC USB_SUBMIT_URB # mid @
           (if r1 < 0 then [DEV_ERR (Failed_to_read_status r1)] else []) @
           [KSVC GENERIC_RESUME]))"
proof (cases "port_initialized (port s)")
  case False
  obtain rr d5 where g: "usb_serial_generic_resume d1 = (rr, d5)"
    by (cases "usb_serial_generic_resume d1")
  from False cfg g usb_serial_generic_resume_trace [OF g] show ?thesis
    by (simp add: ch340_reset_resume_def priv_of_def)
next
  case True
  note t2 = usb_submit_urb_trace [OF sub]
  show ?thesis
  proof (cases "ret = 0")
    case False
    with True cfg sub t2 show ?thesis
      by (simp add: ch340_reset_resume_def priv_of_def dev_err_trace)
  next
    case z: True
    let ?d4 = "if r1 < 0 then dev_err (Failed_to_read_status r1) d3 else d3"
    obtain rr d5 where g: "usb_serial_generic_resume ?d4 = (rr, d5)"
      by (cases "usb_serial_generic_resume ?d4")
    from ch340_get_status_trace [OF st] obtain mid where m: "trace d3 = trace d2 @ mid" by blast
    have t5: "trace d5 = trace d1 @ KSVC USB_SUBMIT_URB # mid @
           (if r1 < 0 then [DEV_ERR (Failed_to_read_status r1)] else []) @ [KSVC GENERIC_RESUME]"
      using usb_serial_generic_resume_trace [OF g] m t2 by (simp add: dev_err_trace)
    have "ch340_reset_resume s = Some (rr, set_priv priv' (s\<lparr>dev := d5\<rparr>))"
      using True z cfg sub st g by (simp add: ch340_reset_resume_def priv_of_def)
    with True z g t5 show ?thesis
      by (auto simp: priv_of_def set_priv_def)
  qed
qed

text \<open>The definitions to unfold when a call is run on a concrete device.\<close>

lemmas driver_defs =
  ch340_configure_def kmalloc_def ksvc_call_def ch340_control_in_def ch340_control_out_def
  usb_control_msg_def next_outcome_def chip_reply_def chip_write_def dev_err_def log_action_def
  ch340_set_baudrate_lcr_def ch340_set_handshake_def ch340_get_status_def
  usb_submit_urb_def usb_serial_generic_resume_def usb_serial_generic_open_def ksvc_ret_def
  priv_of_def set_priv_def

lemmas const_defs =
  CH340_REQ_READ_VERSION_def CH340_REQ_WRITE_REG_def CH340_REQ_READ_REG_def
  CH340_REQ_SERIAL_INIT_def CH340_REQ_MODEM_CTRL_def CH340_BITS_MODEM_STAT_def

text \<open>
  C6, as the code has it. Provided the bring-up does not trap,
  \<open>ch340_reset_resume\<close> runs \<open>ch340_configure\<close> again (ignoring its
  result) and, on a port that was active, resubmits the interrupt urb. If
  that submission fails, the error is logged and returned at once: neither
  the status query nor \<open>usb_serial_generic_resume\<close> is reached. If it
  succeeds, the status is queried; a failure of that query is logged and the
  resume still ends with \<open>usb_serial_generic_resume\<close>, whose result it
  returns. On a port that was not active the completion step follows the
  bring-up directly.
\<close>

theorem reset_resume_flow:
  assumes "ch340_configure (dev s) (priv_of s) \<noteq> None"
  shows "\<exists>r0 d1 ret d2 r1 d3 priv' rr s'.
     ch340_configure (dev s) (priv_of s) = Some (r0, d1) \<and>
     usb_submit_urb d1 = (ret, d2) \<and>
     ch340_get_status d2 (priv_of s) = (r1, d3, priv') \<and>
     ch340_reset_resume s = Some (rr, s') \<and>
     (\<not> port_initialized (port s) \<longrightarrow>
        rr = fst (usb_serial_generic_resume d1) \<and> priv_of s' = priv_of s \<and>
        trace (dev s') = trace d1 @ [KSVC GENERIC_RESUME]) \<and>
     (port_initialized (port s) \<and> ret \<noteq> 0 \<longrightarrow>
        rr = ret \<and> priv_of s' = priv_of s \<and>
        trace (dev s') = trace d1 @ [KSVC USB_SUBMIT_URB, DEV_ERR (Failed_to_submit_urb ret)]) \<and>
     (port_initialized (port s) \<and> ret = 0 \<longrightarrow>
        rr = fst (usb_serial_generic_resume
                    (if r1 < 0 then dev_err (Failed_to_read_status r1) d3 else d3)) \<and>
        priv_of s' = priv' \<and>
        (\<exists>mid. trace (dev s') = trace d1 @ KSVC USB_SUBMIT_URB # mid @
           (if r1 < 0 then [DEV_ERR (Failed_to_read_status r1)] else []) @
           [KSVC GENERIC_RESUME]))"
proof -
  from assms obtain r0 d1 where cfg: "ch340_configure (dev s) (priv_of s) = Some (r0, d1)"
    by (cases "ch340_configure (dev s) (priv_of s)") auto
  obtain ret d2 where sub: "usb_submit_urb d1 = (ret, d2)" by (cases "usb_submit_urb d1")
  obtain r1 d3 priv' where st: "ch340_get_status d2 (priv_of s) = (r1, d3, priv')"
    by (cases "ch340_get_status d2 (priv_of s)")
  from reset_resume_cases [OF cfg sub st] cfg sub st show ?thesis by blast
qed

lemma configure_default:
  "\<exists>d1. ch340_configure idle_device default_priv = Some (0, d1)"
  by (simp add: idle_device_def default_priv_def driver_defs const_defs baud_search_9600 Let_def)



theorem reset_resume_flow_witness:
  "ch340_configure (dev status_failing_serial) (priv_of status_failing_serial) \<noteq> None \<and>
   (\<exists>r0 d1 ret d2 r1 d3 priv' rr s'.
     ch340_configure (dev status_failing_serial) (priv_of status_failing_serial) = Some (r0, d1) \<and>
     usb_submit_urb d1 = (ret, d2) \<and>
     ch340_get_status d2 (priv_of status_failing_serial) = (r1, d3, priv') \<and>
     ch340_reset_resume status_failing_serial = Some (rr, s') \<and>
     (port_initialized (port status_failing_serial) \<and> ret = 0 \<longrightarrow>
        rr = fst (usb_serial_generic_resume
                    (if r1 < 0 then dev_err (Failed_to_read_status r1) d3 else d3)) \<and>
        priv_of s' = priv' \<and>
        (\<exists>mid. trace (dev s') = trace d1 @ KSVC USB_SUBMIT_URB # mid @
           (if r1 < 0 then [DEV_ERR (Failed_to_read_status r1)] else []) @
           [KSVC GENERIC_RESUME]))) \<and>
   result_code (ch340_reset_resume status_failing_serial) = Some 0 \<and>
   result_trace (ch340_reset_resume status_failing_serial) =
     Some [KSVC KMALLOC, CTRL DIR_IN 0x5F 0 0 2, CTRL DIR_OUT 0xA1 0 0 0,
           CTRL DIR_OUT 0x9A 0x1312 0xB282 0, CTRL DIR_OUT 0x9A 0x2518 0xC3 0,
           CTRL DIR_OUT 0xA4 0xFFFF 0 0, KSVC USB_SUBMIT_URB, KSVC KMALLOC,
           CTRL DIR_IN 0x95 0x0706 0 2, DEV_ERR (Failed_to_receive (- 32)),
           DEV_ERR (Failed_to_read_status (- 32)), KSVC GENERIC_RESUME]"
proof -
  have a: "ch340_configure (dev status_failing_serial) (priv_of status_failing_serial) \<noteq> None"
    by (simp add: status_failing_serial_def attached_serial_def idle_device_def default_priv_def
          driver_defs const_defs baud_search_9600 Let_def)
  have b: "result_code (ch340_reset_resume status_failing_serial) = Some 0"
    by (simp add: result_code_def ch340_reset_resume_def status_failing_serial_def
          attached_serial_def idle_device_def default_priv_def driver_defs const_defs
          baud_search_9600 Let_def)
  have c: "result_trace (ch340_reset_resume status_failing_serial) =
     Some [KSVC KMALLOC, CTRL DIR_IN 0x5F 0 0 2, CTRL DIR_OUT 0xA1 0 0 0,
           CTRL DIR_OUT 0x9A 0x1312 0xB282 0, CTRL DIR_OUT 0x9A 0x2518 0xC3 0,
           CTRL DIR_OUT 0xA4 0xFFFF 0 0, KSVC USB_SUBMIT_URB, KSVC KMALLOC,
           CTRL DIR_IN 0x95 0x0706 0 2, DEV_ERR (Failed_to_receive (- 32)),
           DEV_ERR (Failed_to_read_status (- 32)), KSVC GENERIC_RESUME]"
    by (simp add: result_trace_def ch340_reset_resume_def status_failing_serial_def
          attached_serial_def idle_device_def default_priv_def driver_defs const_defs
          baud_search_9600 Let_def)
  from reset_resume_flow [OF a] obtain r0 d1 ret d2 r1 d3 priv' rr s' where
    "ch340_configure (dev status_failing_serial) (priv_of status_failing_serial) = Some (r0, d1) \<and>
     usb_submit_urb d1 = (ret, d2) \<and>
     ch340_get_status d2 (priv_of status_failing_serial) = (r1, d3, priv') \<and>
     ch340_reset_resume status_failing_serial = Some (rr, s') \<and>
     (port_initialized (port status_failing_serial) \<and> ret = 0 \<longrightarrow>
        rr = fst (usb_serial_generic_resume
                    (if r1 < 0 then dev_err (Failed_to_read_status r1) d3 else d3)) \<and>
        priv_of s' = priv' \<and>
        (\<exists>mid. trace (dev s') = trace d1 @ KSVC USB_SUBMIT_URB # mid @
           (if r1 < 0 then [DEV_ERR (Failed_to_read_status r1)] else []) @
           [KSVC GENERIC_RESUME]))" by blast
  then have "\<exists>r0 d1 ret d2 r1 d3 priv' rr s'.
     ch340_configure (dev status_failing_serial) (priv_of status_failing_serial) = Some (r0, d1) \<and>
     usb_submit_urb d1 = (ret, d2) \<and>
     ch340_get_status d2 (priv_of status_failing_serial) = (r1, d3, priv') \<and>
     ch340_reset_resume status_failing_serial = Some (rr, s') \<and>
     (port_initialized (port status_failing_serial) \<and> ret = 0 \<longrightarrow>
        rr = fst (usb_serial_generic_resume
                    (if r1 < 0 then dev_err (Failed_to_read_status r1) d3 else d3)) \<and>
        priv_of s' = priv' \<and>
        (\<exists>mid. trace (dev s') = trace d1 @ KSVC USB_SUBMIT_URB # mid @
           (if r1 < 0 then [DEV_ERR (Failed_to_read_status r1)] else []) @
           [KSVC GENERIC_RESUME]))" by blast
  with a b c show ?thesis by blast
qed

text \<open>
  On an active port whose urb is refused with \<open>-ENOMEM\<close>, the resume
  returns \<open>-12\<close> and stops after the error message: no completion step.
\<close>

theorem reset_resume_urb_refused:
  "port_initialized (port urb_refusing_serial) \<and>
   result_code (ch340_reset_resume urb_refusing_serial) = Some (- 12) \<and>
   result_trace (ch340_reset_resume urb_refusing_serial) =
     Some [KSVC KMALLOC, CTRL DIR_IN 0x5F 0 0 2, CTRL DIR_OUT 0xA1 0 0 0,
           CTRL DIR_OUT 0x9A 0x1312 0xB282 0, CTRL DIR_OUT 0x9A 0x2518 0xC3 0,
           CTRL DIR_OUT 0xA4 0xFFFF 0 0, KSVC USB_SUBMIT_URB,
           DEV_ERR (Failed_to_submit_urb (- 12))]"
  by (simp add: result_code_def result_trace_def ch340_reset_resume_def urb_refusing_serial_def
        attached_serial_def idle_device_def default_priv_def driver_defs const_defs
        baud_search_9600 Let_def)

section \<open>Break on, break off\<close>

lemma le16_lo: "lo8 (get_unaligned_le16 [x, y]) = x"
  apply (simp add: lo8_def get_unaligned_le16_def)
  apply (intro bit_word_eqI)
  apply (auto simp: bit_simps)
  done

lemma le16_hi: "hi8 (get_unaligned_le16 [x, y]) = y"
  apply (simp add: hi8_def get_unaligned_le16_def)
  apply (intro bit_word_eqI)
  apply (auto simp: bit_simps dest: bit_imp_le_length)
  done

lemma break_reg_lo: "lo8 ch340_break_reg = CH340_REG_BREAK"
  by (simp add: lo8_def ch340_break_reg_def CH340_REG_BREAK_def CH340_REG_LCR_def)

lemma break_reg_hi: "hi8 ch340_break_reg = CH340_REG_LCR"
  by (simp add: hi8_def ch340_break_reg_def CH340_REG_BREAK_def CH340_REG_LCR_def)

text \<open>
  One call on a chip that serves its transfers, with memory available: the
  pair is read, the two bits are cleared or set, the pair is written back.
\<close>

lemma break_ctl_served:
  assumes "ctrl_script (dev s) = []" and "ksvc_script (dev s) KMALLOC = []"
  shows "regs (dev (ch340_break_ctl s b)) =
           (regs (dev s))
             (CH340_REG_BREAK :=
                (if b \<noteq> 0 then regs (dev s) CH340_REG_BREAK AND NOT CH340_NBREAK_BITS
                 else regs (dev s) CH340_REG_BREAK OR CH340_NBREAK_BITS),
              CH340_REG_LCR :=
                (if b \<noteq> 0 then regs (dev s) CH340_REG_LCR AND NOT CH340_LCR_ENABLE_TX
                 else regs (dev s) CH340_REG_LCR OR CH340_LCR_ENABLE_TX)) \<and>
         ctrl_script (dev (ch340_break_ctl s b)) = [] \<and>
         ksvc_script (dev (ch340_break_ctl s b)) KMALLOC = []"
  using assms
  by (simp add: ch340_break_ctl_def kmalloc_def ksvc_call_def ch340_control_in_def
      ch340_control_out_def usb_control_msg_def next_outcome_def chip_reply_def chip_write_def
      Let_def le16_lo le16_hi break_reg_lo break_reg_hi CH340_REQ_READ_REG_def
      CH340_REQ_WRITE_REG_def)


lemma and_not_or: "(x AND NOT m) OR m = x OR (m::u8)"
  by (intro bit_word_eqI) (auto simp: bit_simps)

lemma or_and_self: "(x OR m) AND m = (m::u8)"
  by (intro bit_word_eqI) (auto simp: bit_simps)

lemma single_bit_kept: "k < 8 \<Longrightarrow> ((2 ^ k :: u8) = x AND 2 ^ k) = (x AND 2 ^ k \<noteq> 0)"
proof -
  assume k: "k < 8"
  have nz: "(2 ^ k :: u8) \<noteq> 0" using k by (simp add: exp_eq_zero_iff)
  show ?thesis
  proof (cases "bit x k")
    case True
    then have "x AND 2 ^ k = 2 ^ k"
      by (intro bit_word_eqI) (auto simp: bit_simps)
    with nz show ?thesis by simp
  next
    case False
    then have "x AND 2 ^ k = 0" by (simp add: and_exp_eq_0_iff_not_bit)
    with nz show ?thesis by simp
  qed
qed

lemma nbreak_kept: "(CH340_NBREAK_BITS = x AND CH340_NBREAK_BITS) = (x AND CH340_NBREAK_BITS \<noteq> 0)"
  using single_bit_kept [of 0 x] by (simp add: CH340_NBREAK_BITS_def)

lemma tx_kept: "(CH340_LCR_ENABLE_TX = x AND CH340_LCR_ENABLE_TX) = (x AND CH340_LCR_ENABLE_TX \<noteq> 0)"
  using single_bit_kept [of 6 x] by (simp add: CH340_LCR_ENABLE_TX_def)

lemma break_pair_regs:
  assumes a: "ctrl_script (dev s) = []" and k: "ksvc_script (dev s) KMALLOC = []" and b: "b \<noteq> 0"
  shows "regs (dev (ch340_break_ctl (ch340_break_ctl s b) 0)) =
           (regs (dev s))
             (CH340_REG_BREAK := regs (dev s) CH340_REG_BREAK OR CH340_NBREAK_BITS,
              CH340_REG_LCR := regs (dev s) CH340_REG_LCR OR CH340_LCR_ENABLE_TX)"
proof -
  note one = break_ctl_served [OF a k, of b]
  from one have a': "ctrl_script (dev (ch340_break_ctl s b)) = []"
    and k': "ksvc_script (dev (ch340_break_ctl s b)) KMALLOC = []" by simp_all
  note two = break_ctl_served [OF a' k', of 0]
  have ne: "CH340_REG_BREAK \<noteq> CH340_REG_LCR"
    by (simp add: CH340_REG_BREAK_def CH340_REG_LCR_def)
  from one two b ne show ?thesis
    by (simp add: and_not_or fun_upd_twist)
qed

text \<open>
  C8, as the code has it. On a chip that serves its transfers and with no
  other writer, break on followed by break off leaves both registers as they
  were except that \<open>NBREAK\<close> and TX-enable are set. The two bits are
  therefore back at their old values exactly when they were set before the
  pair of calls.
\<close>

theorem break_round_trip:
  assumes "ctrl_script (dev s) = []" and "ksvc_script (dev s) KMALLOC = []" and "b \<noteq> 0"
  shows "regs (dev (ch340_break_ctl (ch340_break_ctl s b) 0)) =
           (regs (dev s))
             (CH340_REG_BREAK := regs (dev s) CH340_REG_BREAK OR CH340_NBREAK_BITS,
              CH340_REG_LCR := regs (dev s) CH340_REG_LCR OR CH340_LCR_ENABLE_TX) \<and>
         ((regs (dev (ch340_break_ctl (ch340_break_ctl s b) 0)) CH340_REG_BREAK AND CH340_NBREAK_BITS =
             regs (dev s) CH340_REG_BREAK AND CH340_NBREAK_BITS) =
          (regs (dev s) CH340_REG_BREAK AND CH340_NBREAK_BITS \<noteq> 0)) \<and>
         ((regs (dev (ch340_break_ctl (ch340_break_ctl s b) 0)) CH340_REG_LCR AND CH340_LCR_ENABLE_TX =
             regs (dev s) CH340_REG_LCR AND CH340_LCR_ENABLE_TX) =
          (regs (dev s) CH340_REG_LCR AND CH340_LCR_ENABLE_TX \<noteq> 0))"
proof -
  have ne: "CH340_REG_BREAK \<noteq> CH340_REG_LCR"
    by (simp add: CH340_REG_BREAK_def CH340_REG_LCR_def)
  show ?thesis
    unfolding break_pair_regs [OF assms]
    using ne by (simp add: or_and_self nbreak_kept tx_kept)
qed


theorem break_round_trip_witness:
  "ctrl_script (dev detached_serial) = [] \<and> ksvc_script (dev detached_serial) KMALLOC = [] \<and>
   (1::int) \<noteq> 0 \<and>
   regs (dev (ch340_break_ctl (ch340_break_ctl detached_serial 1) 0)) =
     (regs (dev detached_serial))
       (CH340_REG_BREAK := regs (dev detached_serial) CH340_REG_BREAK OR CH340_NBREAK_BITS,
        CH340_REG_LCR := regs (dev detached_serial) CH340_REG_LCR OR CH340_LCR_ENABLE_TX) \<and>
   ((regs (dev (ch340_break_ctl (ch340_break_ctl detached_serial 1) 0)) CH340_REG_BREAK
       AND CH340_NBREAK_BITS = regs (dev detached_serial) CH340_REG_BREAK AND CH340_NBREAK_BITS) =
    (regs (dev detached_serial) CH340_REG_BREAK AND CH340_NBREAK_BITS \<noteq> 0)) \<and>
   ((regs (dev (ch340_break_ctl (ch340_break_ctl detached_serial 1) 0)) CH340_REG_LCR
       AND CH340_LCR_ENABLE_TX = regs (dev detached_serial) CH340_REG_LCR AND CH340_LCR_ENABLE_TX) =
    (regs (dev detached_serial) CH340_REG_LCR AND CH340_LCR_ENABLE_TX \<noteq> 0))"
proof -
  have a: "ctrl_script (dev detached_serial) = []"
    by (simp add: detached_serial_def idle_device_def)
  have k: "ksvc_script (dev detached_serial) KMALLOC = []"
    by (simp add: detached_serial_def idle_device_def)
  have b: "(1::int) \<noteq> 0" by simp
  from a k b break_round_trip [OF a k b] show ?thesis by blast
qed

text \<open>
  From registers in which both bits are clear, the pair of calls ends with
  both bits set: the old values are not restored.
\<close>

theorem break_round_trip_from_break_state:
  "regs (dev attached_serial) CH340_REG_BREAK AND CH340_NBREAK_BITS = 0 \<and>
   regs (dev (ch340_break_ctl (ch340_break_ctl attached_serial 1) 0)) CH340_REG_BREAK
     AND CH340_NBREAK_BITS = 1 \<and>
   regs (dev attached_serial) CH340_REG_LCR AND CH340_LCR_ENABLE_TX = 0 \<and>
   regs (dev (ch340_break_ctl (ch340_break_ctl attached_serial 1) 0)) CH340_REG_LCR
     AND CH340_LCR_ENABLE_TX = 0x40"
proof -
  have a: "ctrl_script (dev attached_serial) = []"
    by (simp add: attached_serial_def idle_device_def)
  have k: "ksvc_script (dev attached_serial) KMALLOC = []"
    by (simp add: attached_serial_def idle_device_def)
  have r: "regs (dev attached_serial) = (\<lambda>a. 0)"
    by (simp add: attached_serial_def idle_device_def)
  show ?thesis
    unfolding break_pair_regs [OF a k, of 1, simplified] r
    by (simp add: CH340_REG_BREAK_def CH340_REG_LCR_def CH340_NBREAK_BITS_def
          CH340_LCR_ENABLE_TX_def)
qed

section \<open>The modem status stays within its four bits\<close>

text \<open>What each entry point does to \<open>msr\<close>.\<close>

lemma masked_status: "(x AND CH340_BITS_MODEM_STAT) AND 0xf0 = (0::u8)"
proof -
  have "(x AND CH340_BITS_MODEM_STAT) AND 0xf0 = x AND (0x0f AND 0xf0)"
    by (simp add: CH340_BITS_MODEM_STAT_def and.assoc)
  then show ?thesis by simp
qed

lemma get_status_msr:
  "ch340_get_status d p = (r, d', p') \<Longrightarrow>
   p' = p \<or> (\<exists>b. p' = p\<lparr>msr := NOT b AND CH340_BITS_MODEM_STAT\<rparr>)"
  by (auto simp: ch340_get_status_def Let_def split: prod.splits if_splits)

lemma get_status_inv:
  "ch340_get_status d p = (r, d', p') \<Longrightarrow> msr p AND 0xf0 = 0 \<Longrightarrow> msr p' AND 0xf0 = 0"
  by (drule get_status_msr) (auto simp: masked_status)

lemma update_status_inv:
  "msr (priv_of s) AND 0xf0 = 0 \<Longrightarrow> msr (priv_of (ch340_update_status s data)) AND 0xf0 = 0"
  by (cases "length data < 4")
     (simp_all add: update_status_short update_status_priv masked_status)

lemma read_int_callback_inv:
  "msr (priv_of s) AND 0xf0 = 0 \<Longrightarrow>
   msr (priv_of (ch340_read_int_callback s st data)) AND 0xf0 = 0"
  using update_status_inv [of s data]
  by (auto simp: ch340_read_int_callback_def Let_def priv_of_def split: prod.splits)

lemma set_termios_msr:
  "ch340_set_termios t s old = Some (t', s') \<Longrightarrow> msr (priv_of s') = msr (priv_of s)"
  by (auto simp: ch340_set_termios_def Let_def priv_of_def set_priv_def
           split: if_splits Option.bind_splits prod.splits)

lemma close_msr: "msr (priv_of (ch340_close s)) = msr (priv_of s)"
  by (simp add: ch340_close_def priv_of_def)

lemma dtr_rts_msr: "msr (priv_of (ch340_dtr_rts s on)) = msr (priv_of s)"
  by (simp add: ch340_dtr_rts_def Let_def priv_of_def set_priv_def split: prod.splits)

lemma break_ctl_msr: "msr (priv_of (ch340_break_ctl s b)) = msr (priv_of s)"
  by (simp add: ch340_break_ctl_def Let_def priv_of_def split: prod.splits)

lemma tiocmset_msr: "ch340_tiocmset s st cl = (r, s') \<Longrightarrow> msr (priv_of s') = msr (priv_of s)"
  by (auto simp: ch340_tiocmset_def Let_def priv_of_def set_priv_def split: prod.splits)

lemma port_probe_msr: "ch340_port_probe d = Some (r, d', Some p) \<Longrightarrow> msr p = 0"
  by (auto simp: ch340_port_probe_def Let_def split: prod.splits if_splits Option.bind_splits)

lemma reset_resume_inv:
  "ch340_reset_resume s = Some (r, s') \<Longrightarrow> msr (priv_of s) AND 0xf0 = 0 \<Longrightarrow>
   msr (priv_of s') AND 0xf0 = 0"
  by (auto simp: ch340_reset_resume_def Let_def priv_of_def set_priv_def
           split: if_splits Option.bind_splits prod.splits dest: get_status_inv)

lemma open_inv:
  "ch340_open tty s = Some (r, tty', s') \<Longrightarrow> msr (priv_of s) AND 0xf0 = 0 \<Longrightarrow>
   msr (priv_of s') AND 0xf0 = 0"
proof -
  assume a: "ch340_open tty s = Some (r, tty', s')" and i: "msr (priv_of s) AND 0xf0 = 0"
  from a obtain tty1 s1 where
    st: "(case tty of None \<Rightarrow> Some (None, s)
          | Some t \<Rightarrow> map_option (\<lambda>(t', s'). (Some t', s')) (ch340_set_termios t s None)) =
         Some (tty1, s1)"
    by (auto simp: ch340_open_def split: Option.bind_splits)
  then have "msr (priv_of s1) = msr (priv_of s)"
    by (auto split: option.splits dest: set_termios_msr)
  with i have i1: "msr (port_data (port s1)) AND 0xf0 = 0" by (simp add: priv_of_def)
  from a st i1 show ?thesis
    by (auto simp: ch340_open_def Let_def priv_of_def set_priv_def
             split: if_splits prod.splits dest: get_status_inv)
qed


lemma port_probe_idle:
  "\<exists>d'. ch340_port_probe idle_device = Some (0, d', Some default_priv)"
  by (simp add: ch340_port_probe_def idle_device_def default_priv_def driver_defs const_defs
        baud_search_9600 Let_def DEFAULT_BAUD_RATE_def CH340_LCR_ENABLE_RX_def
        CH340_LCR_ENABLE_TX_def CH340_LCR_CS8_def)

lemma reachable_attached: "reachable attached_serial"
proof -
  from port_probe_idle obtain d' where
    p: "ch340_port_probe idle_device = Some (0, d', Some default_priv)" by blast
  have "reachable \<lparr>dev = d', port = \<lparr>port_data = default_priv, icount = zero_icount,
                     port_tty = None, port_initialized = False\<rparr>\<rparr>"
    by (rule reachable.probe [OF p])
  then show ?thesis
    by (rule reachable.env) (simp add: attached_serial_def)
qed

text \<open>
  C10: in every reachable state of a port \<open>msr\<close> has none of its upper
  four bits set. It is 0 when \<open>ch340_port_probe\<close> has created the private
  data; the status query leaves the private data alone or stores a masked
  complement in \<open>msr\<close>; a notification of at least 4 bytes stores a
  masked complement in \<open>msr\<close>; no other entry point writes it.
\<close>

theorem msr_invariant:
  "(reachable s \<longrightarrow> msr (priv_of s) AND 0xf0 = 0) \<and>
   (ch340_port_probe d = Some (r, d', Some p) \<longrightarrow> msr p = 0) \<and>
   (ch340_get_status d0 p0 = (r0, d1, p1) \<longrightarrow>
      p1 = p0 \<or> (\<exists>b. p1 = p0\<lparr>msr := NOT b AND CH340_BITS_MODEM_STAT\<rparr>)) \<and>
   (4 \<le> length data \<longrightarrow>
      priv_of (ch340_update_status s0 data) =
        (priv_of s0)\<lparr>msr := NOT (data ! 2) AND CH340_BITS_MODEM_STAT\<rparr>)"
proof (intro conjI impI)
  assume "reachable s"
  then show "msr (priv_of s) AND 0xf0 = 0"
  proof (induction rule: reachable.induct)
    case (probe d d' priv ic t i)
    then show ?case by (simp add: priv_of_def port_probe_msr)
  next
    case (env s s')
    then show ?case by (simp add: priv_of_def)
  next
    case (op_open s tty r tty' s')
    then show ?case by (auto dest: open_inv)
  next
    case (op_close s)
    then show ?case by (simp add: close_msr)
  next
    case (op_dtr_rts s on)
    then show ?case by (simp add: dtr_rts_msr)
  next
    case (op_set_termios s t old t' s')
    then show ?case by (auto dest: set_termios_msr)
  next
    case (op_break_ctl s b)
    then show ?case by (simp add: break_ctl_msr)
  next
    case (op_tiocmset s st cl r s')
    then show ?case by (auto dest: tiocmset_msr)
  next
    case (op_read_int s st data)
    then show ?case by (simp add: read_int_callback_inv)
  next
    case (op_reset_resume s r s')
    then show ?case by (auto dest: reset_resume_inv)
  qed
next
  assume "ch340_port_probe d = Some (r, d', Some p)"
  then show "msr p = 0" by (rule port_probe_msr)
next
  assume "ch340_get_status d0 p0 = (r0, d1, p1)"
  then show "p1 = p0 \<or> (\<exists>b. p1 = p0\<lparr>msr := NOT b AND CH340_BITS_MODEM_STAT\<rparr>)"
    by (rule get_status_msr)
next
  assume "4 \<le> length data"
  then show "priv_of (ch340_update_status s0 data) =
        (priv_of s0)\<lparr>msr := NOT (data ! 2) AND CH340_BITS_MODEM_STAT\<rparr>"
    by (rule update_status_priv)
qed


theorem msr_invariant_witness:
  "reachable (ch340_read_int_callback attached_serial URB_OK [0x08, 0x00, 0xF7, 0xEE]) \<and>
   msr (priv_of (ch340_read_int_callback attached_serial URB_OK [0x08, 0x00, 0xF7, 0xEE]))
     AND 0xf0 = 0 \<and>
   (\<exists>d'. ch340_port_probe idle_device = Some (0, d', Some default_priv)) \<and>
   msr default_priv = 0 \<and>
   (\<exists>r0 d1 p1. ch340_get_status idle_device default_priv = (r0, d1, p1) \<and>
      (p1 = default_priv \<or> (\<exists>b. p1 = default_priv\<lparr>msr := NOT b AND CH340_BITS_MODEM_STAT\<rparr>))) \<and>
   4 \<le> length [0x08, 0x00, 0xF7, 0xEE :: u8] \<and>
   priv_of (ch340_update_status attached_serial [0x08, 0x00, 0xF7, 0xEE]) =
     (priv_of attached_serial)\<lparr>msr := NOT ([0x08, 0x00, 0xF7, 0xEE] ! 2) AND CH340_BITS_MODEM_STAT\<rparr>"
proof -
  let ?s = "ch340_read_int_callback attached_serial URB_OK [0x08, 0x00, 0xF7, 0xEE]"
  have r: "reachable ?s" by (rule reachable.op_read_int [OF reachable_attached])
  from port_probe_idle obtain d' where
    p: "ch340_port_probe idle_device = Some (0, d', Some default_priv)" by blast
  obtain r0 d1 p1 where g: "ch340_get_status idle_device default_priv = (r0, d1, p1)"
    by (cases "ch340_get_status idle_device default_priv")
  have l: "4 \<le> length [0x08, 0x00, 0xF7, 0xEE :: u8]" by simp
  note inv = msr_invariant [of ?s idle_device 0 d' default_priv idle_device default_priv r0 d1 p1
      "[0x08, 0x00, 0xF7, 0xEE]" attached_serial]
  from inv r have 1: "msr (priv_of ?s) AND 0xf0 = 0" by blast
  from inv p have 2: "msr default_priv = 0" by blast
  from inv g have 3: "p1 = default_priv \<or>
      (\<exists>b. p1 = default_priv\<lparr>msr := NOT b AND CH340_BITS_MODEM_STAT\<rparr>)" by blast
  from inv l have 4: "priv_of (ch340_update_status attached_serial [0x08, 0x00, 0xF7, 0xEE]) =
     (priv_of attached_serial)\<lparr>msr := NOT ([0x08, 0x00, 0xF7, 0xEE] ! 2) AND CH340_BITS_MODEM_STAT\<rparr>"
    by blast
  from r 1 p 2 g 3 l 4 show ?thesis by blast
qed

end
